theory Spec2Isabelle
  imports Complex_Main "HOL-Library.AList" "HOL-Library.Monad_Syntax"
begin

section \<open>Python floats\<close>

text \<open>
  A Python \<^verbatim>\<open>float\<close> is an IEEE 754 double: a finite number with a significand of 53
  bits, an infinity or a NaN. The model keeps a finite float as the real number it
  stands for, and an operation rounds its exact result to the nearest double, ties to
  the even significand, as the hardware does. The two zeros are one value, as they
  are for \<^verbatim>\<open>==\<close>.
\<close>

datatype pyfloat = Finite real | Infinite bool | NaN
  \<comment> \<open>\<open>Infinite True\<close> is \<^verbatim>\<open>-inf\<close>\<close>

definition rne :: "real \<Rightarrow> int" where
  \<comment> \<open>the nearest integer, a tie going to the even one\<close>
  "rne t =
     (let f = \<lfloor>t\<rfloor>; d = t - of_int f
      in if d < 1 / 2 then f else if 1 / 2 < d then f + 1 else if even f then f else f + 1)"

definition round_real :: "real \<Rightarrow> real" where
  \<comment> \<open>the nearest multiple of the unit in the last place of \<open>x\<close>; below \<open>2 powi (- 1022)\<close>
      the unit is that of the subnormal numbers\<close>
  "round_real x =
     (if x = 0 then 0
      else (let e = max \<lfloor>log 2 \<bar>x\<bar>\<rfloor> (- 1022); u = 2 powi (e - 52)
            in of_int (rne (x / u)) * u))"

definition round64 :: "real \<Rightarrow> pyfloat" where
  \<comment> \<open>a result that rounds to \<open>2 ^ 1024\<close> or beyond overflows to an infinity\<close>
  "round64 x =
     (let y = round_real x in if 2 ^ 1024 \<le> \<bar>y\<bar> then Infinite (x < 0) else Finite y)"

definition fmul :: "pyfloat \<Rightarrow> pyfloat \<Rightarrow> pyfloat" where
  \<comment> \<open>\<^verbatim>\<open>a * b\<close>\<close>
  "fmul a b =
     (case (a, b) of
        (Finite x, Finite y) \<Rightarrow> round64 (x * y)
      | (Finite x, Infinite n) \<Rightarrow> if x = 0 then NaN else Infinite (n \<noteq> (x < 0))
      | (Infinite n, Finite y) \<Rightarrow> if y = 0 then NaN else Infinite (n \<noteq> (y < 0))
      | (Infinite n, Infinite m) \<Rightarrow> Infinite (n \<noteq> m)
      | _ \<Rightarrow> NaN)"

definition fneg :: "pyfloat \<Rightarrow> pyfloat" where
  \<comment> \<open>\<^verbatim>\<open>- a\<close>\<close>
  "fneg a = (case a of Finite x \<Rightarrow> Finite (- x) | Infinite n \<Rightarrow> Infinite (\<not> n) | NaN \<Rightarrow> NaN)"

definition fdiv :: "pyfloat \<Rightarrow> real \<Rightarrow> pyfloat" where
  \<comment> \<open>\<^verbatim>\<open>a / d\<close> for a finite divisor \<open>d\<close> that is not zero (Python raises
      \<^verbatim>\<open>ZeroDivisionError\<close> for a zero divisor; the only divisor of the script is the
      constant 1000)\<close>
  "fdiv a d =
     (case a of
        Finite x \<Rightarrow> round64 (x / d)
      | Infinite n \<Rightarrow> Infinite (n \<noteq> (d < 0))
      | NaN \<Rightarrow> NaN)"

definition float_of_int :: "int \<Rightarrow> pyfloat option" where
  \<comment> \<open>\<^verbatim>\<open>float(i)\<close>: the nearest double, and \<open>None\<close> where Python raises
      \<^verbatim>\<open>OverflowError\<close> (int too large to convert to float)\<close>
  "float_of_int i = (case round64 (of_int i) of Finite y \<Rightarrow> Some (Finite y) | _ \<Rightarrow> None)"

section \<open>Values handled by the script\<close>

text \<open>
  The script \<^verbatim>\<open>nordpool2influxdb.py\<close> receives two trees of Python values: the
  configuration loaded from YAML and the response of the price provider. Both are
  checked by pydantic models before the script uses them. A Python string is
  modelled as a \<^typ>\<open>string\<close>, and a mapping as an association list with string keys
  in insertion order. The keys of a Python mapping are distinct, so looking a key up
  with \<^const>\<open>map_of\<close> is the lookup of the mapping.
\<close>

record datetime =
  year :: nat
  month :: nat
  day :: nat
  hour :: nat
  minute :: nat
  second :: nat
  microsecond :: nat
  tzinfo :: "int option"  \<comment> \<open>UTC offset in seconds, \<open>None\<close> for a naive datetime\<close>

datatype pyval =
    PNone
  | PBool bool
  | PInt int
  | PFloat pyfloat
  | PStr string
  | PDatetime datetime
  | PList "pyval list"
  | PDict "(string \<times> pyval) list"

subsection \<open>Rendering a datetime: \<^verbatim>\<open>datetime.isoformat()\<close>\<close>

fun decimal :: "nat \<Rightarrow> string" where
  "decimal n =
     (if n < 10 then [''0123456789'' ! n]
      else decimal (n div 10) @ [''0123456789'' ! (n mod 10)])"

declare decimal.simps [simp del]

definition zpad :: "nat \<Rightarrow> nat \<Rightarrow> string" where
  \<comment> \<open>\<^verbatim>\<open>"%0wd" % n\<close>\<close>
  "zpad w n = replicate (w - length (decimal n)) (CHR ''0'') @ decimal n"

definition format_offset :: "int \<Rightarrow> string" where
  "format_offset off =
     (let a = nat \<bar>off\<bar>; hh = a div 3600; mm = (a mod 3600) div 60; ss = a mod 60
      in (if off < 0 then ''-'' else ''+'') @ zpad 2 hh @ '':'' @ zpad 2 mm @
         (if ss \<noteq> 0 then '':'' @ zpad 2 ss else []))"

definition isoformat :: "datetime \<Rightarrow> string" where
  "isoformat dt =
     zpad 4 (year dt) @ ''-'' @ zpad 2 (month dt) @ ''-'' @ zpad 2 (day dt) @ ''T'' @
     zpad 2 (hour dt) @ '':'' @ zpad 2 (minute dt) @ '':'' @ zpad 2 (second dt) @
     (if microsecond dt \<noteq> 0 then ''.'' @ zpad 6 (microsecond dt) else []) @
     (case tzinfo dt of None \<Rightarrow> [] | Some off \<Rightarrow> format_offset off)"

subsection \<open>Reading a datetime from a string\<close>

text \<open>
  A string given for a \<^verbatim>\<open>datetime\<close> field is matched by pydantic against
  \<^verbatim>\<open>(\d{4})-(\d{1,2})-(\d{1,2})[T ](\d{1,2}):(\d{1,2})(?::(\d{1,2})(?:\.(\d{1,6})\d{0,6})?)?(Z|[+-]\d{2}(?::?\d{2})?)?$\<close>
  and the groups are handed to the \<^verbatim>\<open>datetime\<close> constructor, which checks their
  ranges. Every digit group of the pattern is followed by a character that is not a
  digit, so a group matches exactly when the whole run of digits has an allowed length.
\<close>

definition is_digit :: "char \<Rightarrow> bool" where
  "is_digit c = (c \<in> set ''0123456789'')"

definition digit_val :: "char \<Rightarrow> nat" where
  "digit_val c = length (takeWhile (\<lambda>d. d \<noteq> c) ''0123456789'')"

definition int_of_digits :: "string \<Rightarrow> nat" where
  "int_of_digits ds = foldl (\<lambda>a c. 10 * a + digit_val c) 0 ds"

definition digits :: "nat \<Rightarrow> nat \<Rightarrow> string \<Rightarrow> (nat \<times> string) option" where
  "digits lo hi s =
     (let ds = takeWhile is_digit s
      in if lo \<le> length ds \<and> length ds \<le> hi
         then Some (int_of_digits ds, dropWhile is_digit s) else None)"

definition expect :: "string \<Rightarrow> string \<Rightarrow> string option" where
  \<comment> \<open>one character out of \<open>cs\<close>\<close>
  "expect cs s = (case s of [] \<Rightarrow> None | c # r \<Rightarrow> if c \<in> set cs then Some r else None)"

definition at_end :: "string \<Rightarrow> bool" where
  \<comment> \<open>\<^verbatim>\<open>$\<close>: the end of the string, or the newline that ends it\<close>
  "at_end s = (s = [] \<or> s = [CHR 0x0A])"

datatype tzgroup = TzAbsent | TzZ | TzOffset bool nat nat

definition match_tz :: "string \<Rightarrow> tzgroup option" where
  "match_tz s =
     (case s of
        [] \<Rightarrow> Some TzAbsent
      | c # r \<Rightarrow>
          if c = CHR ''Z'' then (if at_end r then Some TzZ else None)
          else if c = CHR ''+'' \<or> c = CHR ''-'' then
            (let ds = takeWhile is_digit r; r' = dropWhile is_digit r; neg = (c = CHR ''-'')
             in if length ds = 4 then
                  (if at_end r'
                   then Some (TzOffset neg (int_of_digits (take 2 ds)) (int_of_digits (drop 2 ds)))
                   else None)
                else if length ds = 2 then
                  (case expect '':'' r' of
                     Some r'' \<Rightarrow>
                       (case digits 2 2 r'' of
                          Some (m, r3) \<Rightarrow>
                            if at_end r3 then Some (TzOffset neg (int_of_digits ds) m) else None
                        | None \<Rightarrow> None)
                   | None \<Rightarrow> if at_end r' then Some (TzOffset neg (int_of_digits ds) 0) else None)
                else None)
          else if at_end s then Some TzAbsent else None)"

definition match_fraction :: "string \<Rightarrow> (nat \<times> string) option" where
  \<comment> \<open>\<^verbatim>\<open>(\d{1,6})\d{0,6}\<close>, the first group padded with zeros to six digits\<close>
  "match_fraction s =
     (let ds = takeWhile is_digit s
      in if 1 \<le> length ds \<and> length ds \<le> 12
         then Some (int_of_digits (take 6 (ds @ ''00000'')), dropWhile is_digit s)
         else None)"

definition match_seconds :: "string \<Rightarrow> (nat \<times> nat \<times> string) option" where
  "match_seconds s =
     (case expect '':'' s of
        None \<Rightarrow> Some (0, 0, s)
      | Some r \<Rightarrow>
          do {
            (sec, r1) \<leftarrow> digits 1 2 r;
            (case expect ''.'' r1 of
               None \<Rightarrow> Some (sec, 0, r1)
             | Some r2 \<Rightarrow> do { (us, r3) \<leftarrow> match_fraction r2; Some (sec, us, r3) })
          })"

definition parse_timezone :: "tzgroup \<Rightarrow> int option option" where
  \<comment> \<open>\<open>None\<close>: the offset is not strictly within 24 hours\<close>
  "parse_timezone g =
     (case g of
        TzAbsent \<Rightarrow> Some None
      | TzZ \<Rightarrow> Some (Some 0)
      | TzOffset neg hh mm \<Rightarrow>
          (let off = 60 * hh + mm
           in if off < 1440 then Some (Some ((if neg then - int off else int off) * 60))
              else None))"

definition is_leap :: "nat \<Rightarrow> bool" where
  "is_leap y = (y mod 4 = 0 \<and> (y mod 100 \<noteq> 0 \<or> y mod 400 = 0))"

definition days_in_month :: "nat \<Rightarrow> nat \<Rightarrow> nat" where
  "days_in_month y m =
     (if m = 2 then (if is_leap y then 29 else 28)
      else if m = 4 \<or> m = 6 \<or> m = 9 \<or> m = 11 then 30 else 31)"

definition valid_datetime :: "datetime \<Rightarrow> bool" where
  \<comment> \<open>the range checks of the \<^verbatim>\<open>datetime\<close> constructor\<close>
  "valid_datetime dt =
     (1 \<le> year dt \<and> year dt \<le> 9999 \<and> 1 \<le> month dt \<and> month dt \<le> 12 \<and>
      1 \<le> day dt \<and> day dt \<le> days_in_month (year dt) (month dt) \<and>
      hour dt \<le> 23 \<and> minute dt \<le> 59 \<and> second dt \<le> 59 \<and> microsecond dt \<le> 999999)"

definition match_datetime :: "string \<Rightarrow> (datetime \<times> tzgroup) option" where
  "match_datetime s =
     do {
       (y, r1) \<leftarrow> digits 4 4 s;
       r2 \<leftarrow> expect ''-'' r1;
       (mo, r3) \<leftarrow> digits 1 2 r2;
       r4 \<leftarrow> expect ''-'' r3;
       (d, r5) \<leftarrow> digits 1 2 r4;
       r6 \<leftarrow> expect ''T '' r5;
       (h, r7) \<leftarrow> digits 1 2 r6;
       r8 \<leftarrow> expect '':'' r7;
       (mi, r9) \<leftarrow> digits 1 2 r8;
       (sec, us, r10) \<leftarrow> match_seconds r9;
       tz \<leftarrow> match_tz r10;
       Some (\<lparr>year = y, month = mo, day = d, hour = h, minute = mi, second = sec,
              microsecond = us, tzinfo = None\<rparr>, tz)
     }"

definition parse_datetime_str :: "string \<Rightarrow> datetime option option" where
  \<comment> \<open>\<open>None\<close>: the pattern does not match; \<open>Some None\<close>: it matches and a range check fails\<close>
  "parse_datetime_str s =
     (case match_datetime s of
        None \<Rightarrow> None
      | Some (dt, g) \<Rightarrow>
          Some (case parse_timezone g of
                  None \<Rightarrow> None
                | Some tz \<Rightarrow> if valid_datetime dt then Some (dt\<lparr>tzinfo := tz\<rparr>) else None))"

section \<open>Validation by the pydantic models\<close>

text \<open>
  A validation visits the fields of a model in their order. A field that is refused
  adds its errors, each with the path of the field, to the errors of the model, and
  the validation goes on; at the end a model with errors raises them as one
  validation error. Where a value has another kind than the field's type, pydantic
  tries to convert it (\<^verbatim>\<open>str(v)\<close>, \<^verbatim>\<open>int(v)\<close>, \<^verbatim>\<open>float(v)\<close>, a Unix timestamp for a
  datetime, \<^verbatim>\<open>dict(v)\<close>); these conversions of the library are parameters of the
  model, and \<open>None\<close> means that the value is refused. One conversion is not caught by
  the library when it fails: \<^verbatim>\<open>float(i)\<close> of an integer beyond the range of a float
  raises \<^verbatim>\<open>OverflowError\<close>, which ends the validation at once and leaves it as it is.
\<close>

datatype locitem = Key string | Idx nat

datatype errkind =
    Missing | NoneNotAllowed | StrError | IntegerError | FloatError | DateTimeError
  | ListError | DictError

type_synonym verror = "locitem list \<times> errkind"

datatype 'a outcome = is_Valid: Valid 'a | is_Invalid: Invalid "verror list" | Overflow

record coercions =
  to_str :: "pyval \<Rightarrow> string option"
  to_int :: "pyval \<Rightarrow> int option"
  to_float :: "pyval \<Rightarrow> pyfloat option"
  to_datetime :: "pyval \<Rightarrow> datetime option"
  to_dict :: "pyval \<Rightarrow> (string \<times> pyval) list option"

definition strict :: coercions where
  \<comment> \<open>no conversion succeeds\<close>
  "strict = \<lparr>to_str = (\<lambda>_. None), to_int = (\<lambda>_. None), to_float = (\<lambda>_. None),
             to_datetime = (\<lambda>_. None), to_dict = (\<lambda>_. None)\<rparr>"

definition at_loc :: "locitem \<Rightarrow> 'a outcome \<Rightarrow> 'a outcome" where
  "at_loc l r =
     (case r of
        Valid x \<Rightarrow> Valid x
      | Invalid es \<Rightarrow> Invalid (map (\<lambda>(loc, k). (l # loc, k)) es)
      | Overflow \<Rightarrow> Overflow)"

definition map_valid :: "('a \<Rightarrow> 'b) \<Rightarrow> 'a outcome \<Rightarrow> 'b outcome" where
  "map_valid f r =
     (case r of Valid x \<Rightarrow> Valid (f x) | Invalid es \<Rightarrow> Invalid es | Overflow \<Rightarrow> Overflow)"

definition both :: "'a outcome \<Rightarrow> 'b outcome \<Rightarrow> ('a \<times> 'b) outcome" where
  \<comment> \<open>one field after another: an exception ends the validation, errors add up\<close>
  "both r s =
     (case r of
        Overflow \<Rightarrow> Overflow
      | Invalid es \<Rightarrow>
          (case s of Overflow \<Rightarrow> Overflow | Invalid es' \<Rightarrow> Invalid (es @ es') | Valid y \<Rightarrow> Invalid es)
      | Valid x \<Rightarrow>
          (case s of Overflow \<Rightarrow> Overflow | Invalid es' \<Rightarrow> Invalid es' | Valid y \<Rightarrow> Valid (x, y)))"

definition str_validator :: "coercions \<Rightarrow> pyval \<Rightarrow> string outcome" where
  "str_validator L v =
     (case v of
        PStr s \<Rightarrow> Valid s
      | _ \<Rightarrow> (case to_str L v of Some s \<Rightarrow> Valid s | None \<Rightarrow> Invalid [([], StrError)]))"

definition int_validator :: "coercions \<Rightarrow> pyval \<Rightarrow> int outcome" where
  "int_validator L v =
     (case v of
        PInt i \<Rightarrow> Valid i
      | _ \<Rightarrow> (case to_int L v of Some i \<Rightarrow> Valid i | None \<Rightarrow> Invalid [([], IntegerError)]))"

definition float_validator :: "coercions \<Rightarrow> pyval \<Rightarrow> pyfloat outcome" where
  "float_validator L v =
     (case v of
        PFloat x \<Rightarrow> Valid x
      | PInt i \<Rightarrow> (case float_of_int i of Some x \<Rightarrow> Valid x | None \<Rightarrow> Overflow)
      | _ \<Rightarrow> (case to_float L v of Some x \<Rightarrow> Valid x | None \<Rightarrow> Invalid [([], FloatError)]))"

text \<open>
  pydantic tries \<^verbatim>\<open>float(v)\<close> on a string before the pattern. No string that the
  pattern matches is accepted by \<^verbatim>\<open>float\<close> (a minus sign follows four digits), so
  the model asks the pattern first and leaves every other string to the conversion.
\<close>

definition datetime_validator :: "coercions \<Rightarrow> pyval \<Rightarrow> datetime outcome" where
  "datetime_validator L v =
     (case v of
        PDatetime d \<Rightarrow> Valid d
      | PStr s \<Rightarrow>
          (case parse_datetime_str s of
             Some (Some d) \<Rightarrow> Valid d
           | Some None \<Rightarrow> Invalid [([], DateTimeError)]
           | None \<Rightarrow>
               (case to_datetime L v of
                  Some d \<Rightarrow> Valid d
                | None \<Rightarrow> Invalid [([], DateTimeError)]))
      | _ \<Rightarrow>
          (case to_datetime L v of Some d \<Rightarrow> Valid d | None \<Rightarrow> Invalid [([], DateTimeError)]))"

definition not_none :: "(pyval \<Rightarrow> 'a outcome) \<Rightarrow> pyval \<Rightarrow> 'a outcome" where
  \<comment> \<open>a field that is not optional refuses \<^verbatim>\<open>None\<close> before its validators run; the items
      of a list and the values of a mapping are such fields\<close>
  "not_none val v = (if v = PNone then Invalid [([], NoneNotAllowed)] else val v)"

fun collect :: "'a outcome list \<Rightarrow> 'a list outcome" where
  "collect [] = Valid []"
| "collect (r # rs) = map_valid (\<lambda>(x, xs). x # xs) (both r (collect rs))"

definition list_validator :: "(pyval \<Rightarrow> 'a outcome) \<Rightarrow> pyval \<Rightarrow> 'a list outcome" where
  "list_validator item v =
     (case v of
        PList xs \<Rightarrow> collect (map (\<lambda>(i, x). at_loc (Idx i) (not_none item x)) (enumerate 0 xs))
      | _ \<Rightarrow> Invalid [([], ListError)])"

definition as_dict :: "coercions \<Rightarrow> pyval \<Rightarrow> (string \<times> pyval) list option" where
  "as_dict L v = (case v of PDict kvs \<Rightarrow> Some kvs | _ \<Rightarrow> to_dict L v)"

fun dict_loop ::
  "(pyval \<Rightarrow> 'a outcome) \<Rightarrow> (string \<times> pyval) list \<Rightarrow> (string \<times> 'a) list \<Rightarrow> verror list list \<Rightarrow>
   (string \<times> 'a) list outcome" where
  \<comment> \<open>the loop over the items of a mapping: the errors of a refused value are appended
      to \<open>errors\<close>, and \<^verbatim>\<open>result[key] = value\<close> keeps the place of a key already there\<close>
  "dict_loop item [] result errors =
     (if errors = [] then Valid result else Invalid (concat errors))"
| "dict_loop item (kv # kvs) result errors =
     (case at_loc (Key (fst kv)) (not_none item (snd kv)) of
        Valid x \<Rightarrow> dict_loop item kvs (AList.update (fst kv) x result) errors
      | Invalid es \<Rightarrow> dict_loop item kvs result (errors @ [es])
      | Overflow \<Rightarrow> Overflow)"

definition dict_validator ::
  "coercions \<Rightarrow> (pyval \<Rightarrow> 'a outcome) \<Rightarrow> pyval \<Rightarrow> (string \<times> 'a) list outcome" where
  "dict_validator L item v =
     (case as_dict L v of
        None \<Rightarrow> Invalid [([], DictError)]
      | Some kvs \<Rightarrow> dict_loop item kvs [] [])"

definition model_validator ::
  "coercions \<Rightarrow> ((string \<times> pyval) list \<Rightarrow> 'a outcome) \<Rightarrow> pyval \<Rightarrow> 'a outcome" where
  \<comment> \<open>a field whose type is a model: a mapping is handed to the model's constructor\<close>
  "model_validator L init v =
     (case as_dict L v of None \<Rightarrow> Invalid [([], DictError)] | Some kvs \<Rightarrow> init kvs)"

definition required_field ::
  "(string \<times> pyval) list \<Rightarrow> string \<Rightarrow> (pyval \<Rightarrow> 'a outcome) \<Rightarrow> 'a outcome" where
  "required_field kvs name val =
     (case map_of kvs name of
        None \<Rightarrow> Invalid [([Key name], Missing)]
      | Some v \<Rightarrow>
          if v = PNone then Invalid [([Key name], NoneNotAllowed)]
          else at_loc (Key name) (val v))"

definition default_field ::
  "(string \<times> pyval) list \<Rightarrow> string \<Rightarrow> 'a \<Rightarrow> (pyval \<Rightarrow> 'a outcome) \<Rightarrow> 'a outcome" where
  "default_field kvs name dflt val =
     (case map_of kvs name of
        None \<Rightarrow> Valid dflt
      | Some v \<Rightarrow>
          if v = PNone then Invalid [([Key name], NoneNotAllowed)]
          else at_loc (Key name) (val v))"

definition optional_field ::
  "(string \<times> pyval) list \<Rightarrow> string \<Rightarrow> (pyval \<Rightarrow> 'a outcome) \<Rightarrow> 'a option outcome" where
  "optional_field kvs name val =
     (case map_of kvs name of
        None \<Rightarrow> Valid None
      | Some v \<Rightarrow> if v = PNone then Valid None else map_valid Some (at_loc (Key name) (val v)))"

subsection \<open>The models of the script\<close>

record InfluxDBConfig =
  host :: string
  port :: int
  database :: string
  retention_policy :: "string option"

record NordpoolConfig =
  areas :: "string list"
  currency :: string

record CheckerConfig =
  influxdb :: InfluxDBConfig
  nordpool :: NordpoolConfig

record HourlyPrice =
  start :: datetime
  "value" :: pyfloat

record AreaValues =
  "values" :: "HourlyPrice list"

record AreaPrices =
  areas :: "(string \<times> AreaValues) list"

text \<open>
  A model looks up the fields it declares and nothing else: a key that no field
  declares takes no part in the validation (the models of the response set
  \<^verbatim>\<open>allow_extra\<close>; nothing in the script reads an undeclared field). A field with a
  default but no annotation (\<^verbatim>\<open>port = 8086\<close>, \<^verbatim>\<open>database = "energy"\<close>) has the type of
  its default. pydantic puts the annotated fields of a model first, so
  \<^verbatim>\<open>InfluxDBConfig\<close> visits its fields in the order host, retention_policy, port,
  database.
\<close>

definition InfluxDBConfig_init :: "coercions \<Rightarrow> (string \<times> pyval) list \<Rightarrow> InfluxDBConfig outcome" where
  "InfluxDBConfig_init L kvs =
     (let h = required_field kvs ''host'' (str_validator L);
          r = optional_field kvs ''retention_policy'' (str_validator L);
          p = default_field kvs ''port'' 8086 (int_validator L);
          d = default_field kvs ''database'' ''energy'' (str_validator L)
      in map_valid
           (\<lambda>(h', r', p', d'). \<lparr>host = h', port = p', database = d', retention_policy = r'\<rparr>)
           (both h (both r (both p d))))"

definition NordpoolConfig_init :: "coercions \<Rightarrow> (string \<times> pyval) list \<Rightarrow> NordpoolConfig outcome" where
  "NordpoolConfig_init L kvs =
     (let a = required_field kvs ''areas'' (list_validator (str_validator L));
          c = required_field kvs ''currency'' (str_validator L)
      in map_valid (\<lambda>(a', c'). \<lparr>NordpoolConfig.areas = a', currency = c'\<rparr>) (both a c))"

definition CheckerConfig_init :: "coercions \<Rightarrow> (string \<times> pyval) list \<Rightarrow> CheckerConfig outcome" where
  "CheckerConfig_init L kvs =
     (let i = required_field kvs ''influxdb'' (model_validator L (InfluxDBConfig_init L));
          n = required_field kvs ''nordpool'' (model_validator L (NordpoolConfig_init L))
      in map_valid (\<lambda>(i', n'). \<lparr>influxdb = i', nordpool = n'\<rparr>) (both i n))"

definition HourlyPrice_init :: "coercions \<Rightarrow> (string \<times> pyval) list \<Rightarrow> HourlyPrice outcome" where
  "HourlyPrice_init L kvs =
     (let s = required_field kvs ''start'' (datetime_validator L);
          x = required_field kvs ''value'' (float_validator L)
      in map_valid (\<lambda>(s', x'). \<lparr>start = s', value = x'\<rparr>) (both s x))"

definition AreaValues_init :: "coercions \<Rightarrow> (string \<times> pyval) list \<Rightarrow> AreaValues outcome" where
  "AreaValues_init L kvs =
     map_valid (\<lambda>hs. \<lparr>values = hs\<rparr>)
       (required_field kvs ''values'' (list_validator (model_validator L (HourlyPrice_init L))))"

definition AreaPrices_init :: "coercions \<Rightarrow> (string \<times> pyval) list \<Rightarrow> AreaPrices outcome" where
  "AreaPrices_init L kvs =
     map_valid (\<lambda>a. \<lparr>areas = a\<rparr>)
       (required_field kvs ''areas'' (dict_validator L (model_validator L (AreaValues_init L))))"

definition AreaPrices_parse_obj :: "coercions \<Rightarrow> pyval \<Rightarrow> AreaPrices outcome" where
  "AreaPrices_parse_obj L obj =
     (case as_dict L obj of
        None \<Rightarrow> Invalid [([Key ''__root__''], DictError)]
      | Some kvs \<Rightarrow> AreaPrices_init L kvs)"

section \<open>The pipeline\<close>

definition convert_price_to_cents_with_vat24 :: "pyfloat \<Rightarrow> pyfloat" where
  \<comment> \<open>\<^verbatim>\<open>(1.24 * price * 100) / 1000\<close>: the literal \<^verbatim>\<open>1.24\<close> is the double nearest to it,
      the integers 100 and 1000 are floats without rounding\<close>
  "convert_price_to_cents_with_vat24 price =
     fdiv (fmul (fmul (round64 1.24) price) (Finite 100)) 1000"

record WriteRecord =
  measurement :: string
  tags :: "(string \<times> string) list"
  time :: string
  fields' :: "(string \<times> pyfloat) list"

definition point :: "string \<Rightarrow> HourlyPrice \<Rightarrow> WriteRecord" where
  \<comment> \<open>the dictionary built for one hourly price of one area\<close>
  "point area d =
     \<lparr>measurement = ''nordpool_price'',
      tags = [(''area'', area)],
      time = isoformat (start d),
      fields' = [(''price'', convert_price_to_cents_with_vat24 (value d))]\<rparr>"

definition json_body :: "AreaPrices \<Rightarrow> WriteRecord list" where
  \<comment> \<open>the list comprehension: the outer loop over the areas, the inner one over an
      area's values, every element appended to the result\<close>
  "json_body area_prices =
     foldl (\<lambda>body item. foldl (\<lambda>body d. body @ [point (fst item) d]) body (values (snd item)))
       [] (areas area_prices)"

text \<open>
  The world outside the script: what the provider answers to a query (currency,
  resolution, areas) and what the database answers to a batch of points. Either
  may raise; an exception is named by its message.
\<close>

datatype InfluxDBClient =
  InfluxDBClient (client_host: string) (client_port: int) (client_database: string)

record world =
  provider :: "string \<Rightarrow> nat \<Rightarrow> string list \<Rightarrow> string + pyval"
  sink :: "InfluxDBClient \<Rightarrow> WriteRecord list \<Rightarrow> string option \<Rightarrow> string option"

datatype error =
    ValidationError "verror list"
  | OverflowError
  | TypeError
  | ProviderError string
  | SinkError string

datatype event =
    SessionCreated
  | Fetch string nat "string list"
  | DebugPrices AreaPrices
  | DebugDryRun "WriteRecord list"
  | WritePoints InfluxDBClient "WriteRecord list" "string option"
  | SessionClosed

definition collect_data ::
  "coercions \<Rightarrow> world \<Rightarrow> NordpoolConfig \<Rightarrow> InfluxDBClient \<Rightarrow> InfluxDBConfig \<Rightarrow> bool \<Rightarrow>
   (error + unit) \<times> event list" where
  "collect_data L w nordpool_config influx influx_config dry_run =
     (let t0 = [SessionCreated,
                Fetch (currency nordpool_config) 15 (NordpoolConfig.areas nordpool_config)]
      in case provider w (currency nordpool_config) 15 (NordpoolConfig.areas nordpool_config) of
           Inl e \<Rightarrow> (Inl (ProviderError e), t0)
         | Inr data \<Rightarrow>
             (case AreaPrices_parse_obj L data of
                Invalid es \<Rightarrow> (Inl (ValidationError es), t0)
              | Overflow \<Rightarrow> (Inl OverflowError, t0)
              | Valid area_prices \<Rightarrow>
                  (let t1 = t0 @ [DebugPrices area_prices];
                       body = json_body area_prices
                   in if dry_run then (Inr (), t1 @ [DebugDryRun body, SessionClosed])
                      else
                        (case sink w influx body (retention_policy influx_config) of
                           Some e \<Rightarrow>
                             (Inl (SinkError e),
                              t1 @ [WritePoints influx body (retention_policy influx_config)])
                         | None \<Rightarrow>
                             (Inr (),
                              t1 @ [WritePoints influx body (retention_policy influx_config),
                                    SessionClosed])))))"

definition run :: "coercions \<Rightarrow> world \<Rightarrow> pyval \<Rightarrow> bool \<Rightarrow> (error + unit) \<times> event list" where
  \<comment> \<open>\<open>config\<close> is the tree loaded from the configuration file\<close>
  "run L w config dry_run =
     (case config of
        PDict kvs \<Rightarrow>
          (case CheckerConfig_init L kvs of
             Invalid es \<Rightarrow> (Inl (ValidationError es), [])
           | Overflow \<Rightarrow> (Inl OverflowError, [])
           | Valid checker_config \<Rightarrow>
               (let influx_config = influxdb checker_config;
                    nordpool_config = nordpool checker_config;
                    influx = InfluxDBClient (host influx_config) (port influx_config)
                               (database influx_config)
                in collect_data L w nordpool_config influx influx_config dry_run))
      | _ \<Rightarrow> (Inl TypeError, []))"

subsection \<open>Reading a trace\<close>

definition dry_run_batches :: "event list \<Rightarrow> WriteRecord list list" where
  "dry_run_batches t = concat (map (\<lambda>e. case e of DebugDryRun b \<Rightarrow> [b] | _ \<Rightarrow> []) t)"

definition written_batches :: "event list \<Rightarrow> WriteRecord list list" where
  "written_batches t = concat (map (\<lambda>e. case e of WritePoints c b r \<Rightarrow> [b] | _ \<Rightarrow> []) t)"

definition fetches :: "event list \<Rightarrow> nat" where
  "fetches t = length (filter (\<lambda>e. case e of Fetch c r a \<Rightarrow> True | _ \<Rightarrow> False) t)"

definition session_open :: "event list \<Rightarrow> bool" where
  \<comment> \<open>whether the session is open after the events of \<open>t\<close>\<close>
  "session_open t =
     foldl (\<lambda>b e. case e of SessionCreated \<Rightarrow> True | SessionClosed \<Rightarrow> False | _ \<Rightarrow> b) False t"

subsection \<open>Shapes of a provider response\<close>

text \<open>
  The parts of a response that the models look at: the mapping of areas under the
  key \<^verbatim>\<open>areas\<close>, and the hourly entries listed under \<^verbatim>\<open>values\<close> in each area.
\<close>

definition area_map :: "coercions \<Rightarrow> pyval \<Rightarrow> (string \<times> pyval) list option" where
  "area_map L raw =
     (case as_dict L raw of
        None \<Rightarrow> None
      | Some kvs \<Rightarrow>
          (case map_of kvs ''areas'' of
             None \<Rightarrow> None
           | Some a \<Rightarrow> if a = PNone then None else as_dict L a))"

definition area_entries :: "coercions \<Rightarrow> pyval \<Rightarrow> pyval list" where
  "area_entries L av =
     (case as_dict L av of
        None \<Rightarrow> []
      | Some kvs \<Rightarrow> (case map_of kvs ''values'' of Some (PList hs) \<Rightarrow> hs | _ \<Rightarrow> []))"

definition hourly_entries :: "coercions \<Rightarrow> pyval \<Rightarrow> pyval list" where
  "hourly_entries L raw =
     (case area_map L raw of
        None \<Rightarrow> []
      | Some am \<Rightarrow> concat (map (\<lambda>kv. area_entries L (snd kv)) am))"

definition lacks_field :: "coercions \<Rightarrow> string \<Rightarrow> (pyval \<Rightarrow> 'a outcome) \<Rightarrow> pyval \<Rightarrow> bool" where
  \<comment> \<open>the entry is no mapping, or a mapping in which the field is absent, null or
      refused by \<open>val\<close>\<close>
  "lacks_field L name val h =
     (case as_dict L h of
        None \<Rightarrow> True
      | Some kvs \<Rightarrow>
          (case map_of kvs name of
             None \<Rightarrow> True
           | Some v \<Rightarrow> v = PNone \<or> is_Invalid (val v)))"

definition too_large :: "coercions \<Rightarrow> pyval \<Rightarrow> bool" where
  \<comment> \<open>the entry is a mapping whose value is an integer beyond the range of a float\<close>
  "too_large L h =
     (case as_dict L h of
        None \<Rightarrow> False
      | Some kvs \<Rightarrow>
          (case map_of kvs ''value'' of
             Some (PInt i) \<Rightarrow> float_of_int i = None
           | _ \<Rightarrow> False))"

subsection \<open>Example inputs\<close>

definition example_entry :: pyval where
  "example_entry = PDict [(''start'', PStr ''2024-01-01T00:00:00Z''), (''value'', PFloat (Finite 10))]"

definition area_keyed_response :: pyval where
  \<comment> \<open>\<^verbatim>\<open>{"SE1": {"values": [{"start": "2024-01-01T00:00:00Z", "value": 10.0}]}}\<close>\<close>
  "area_keyed_response = PDict [(''SE1'', PDict [(''values'', PList [example_entry])])]"

definition areas_response :: pyval where
  \<comment> \<open>the same areas under the key \<^verbatim>\<open>areas\<close>\<close>
  "areas_response = PDict [(''areas'', area_keyed_response)]"

definition example_start :: datetime where
  "example_start =
     \<lparr>year = 2024, month = 1, day = 1, hour = 0, minute = 0, second = 0, microsecond = 0,
      tzinfo = Some 0\<rparr>"

definition example_prices :: AreaPrices where
  "example_prices = \<lparr>areas = [(''SE1'', \<lparr>values = [\<lparr>start = example_start, value = Finite 10\<rparr>]\<rparr>)]\<rparr>"

definition example_point :: WriteRecord where
  "example_point =
     \<lparr>measurement = ''nordpool_price'', tags = [(''area'', ''SE1'')],
      time = ''2024-01-01T00:00:00+00:00'', fields' = [(''price'', round64 1.24)]\<rparr>"

definition example_query :: NordpoolConfig where
  "example_query = \<lparr>NordpoolConfig.areas = [''SE1''], currency = ''EUR''\<rparr>"

definition example_target :: InfluxDBConfig where
  "example_target =
     \<lparr>host = ''localhost'', port = 8086, database = ''energy'', retention_policy = None\<rparr>"

definition example_client :: InfluxDBClient where
  "example_client = InfluxDBClient ''localhost'' 8086 ''energy''"

definition answering :: "pyval \<Rightarrow> world" where
  \<comment> \<open>the provider answers \<open>resp\<close>, the database accepts every batch\<close>
  "answering resp = \<lparr>provider = (\<lambda>c r a. Inr resp), sink = (\<lambda>c b r. None)\<rparr>"

definition refusing :: "pyval \<Rightarrow> world" where
  \<comment> \<open>the provider answers \<open>resp\<close>, the database refuses every batch\<close>
  "refusing resp = \<lparr>provider = (\<lambda>c r a. Inr resp), sink = (\<lambda>c b r. Some ''write failed'')\<rparr>"

definition unreachable :: world where
  \<comment> \<open>the provider cannot be reached\<close>
  "unreachable = \<lparr>provider = (\<lambda>c r a. Inl ''timeout''), sink = (\<lambda>c b r. None)\<rparr>"

definition example_config :: pyval where
  "example_config =
     PDict [(''influxdb'', PDict [(''host'', PStr ''localhost'')]),
            (''nordpool'', PDict [(''areas'', PList [PStr ''SE1'']), (''currency'', PStr ''EUR'')])]"

definition empty_areas_config :: pyval where
  "empty_areas_config =
     PDict [(''influxdb'', PDict [(''host'', PStr ''localhost'')]),
            (''nordpool'', PDict [(''areas'', PList []), (''currency'', PStr ''EUR'')])]"

definition empty_values_response :: pyval where
  "empty_values_response = PDict [(''areas'', PDict [(''SE1'', PDict [(''values'', PList [])])])]"

definition missing_areas_config :: pyval where
  "missing_areas_config =
     PDict [(''influxdb'', PDict [(''host'', PStr ''localhost'')]),
            (''nordpool'', PDict [(''currency'', PStr ''EUR'')])]"

definition missing_start_response :: pyval where
  "missing_start_response =
     PDict [(''areas'', PDict [(''SE1'', PDict [(''values'', PList [PDict [(''value'', PFloat (Finite 10))]])])])]"

definition non_numeric_value_response :: pyval where
  "non_numeric_value_response =
     PDict [(''areas'', PDict [(''SE1'', PDict [(''values'',
       PList [PDict [(''start'', PStr ''2024-01-01T00:00:00Z''), (''value'', PStr ''abc'')]])])])]"

definition huge_int :: int where
  "huge_int = 10 ^ 400"

definition huge_value_response :: pyval where
  \<comment> \<open>an hourly entry without a start, its value the integer \<open>10 ^ 400\<close>\<close>
  "huge_value_response =
     PDict [(''areas'', PDict [(''SE1'', PDict [(''values'', PList [PDict [(''value'', PInt huge_int)]])])])]"

section \<open>Supporting lemmas\<close>

subsection \<open>Rounding\<close>

lemma powr_powi: "(2::real) powr (of_int e) = 2 powi e"
  by (rule powr_real_of_int') simp_all

lemma floor_log2:
  assumes "2 powi e \<le> x" and "x < 2 powi (e + 1)"
  shows "\<lfloor>log 2 x\<rfloor> = e"
proof -
  have "(0::real) < 2 powi e" by simp
  with assms(1) have pos: "0 < x" by linarith
  have "2 powr (of_int e) \<le> x"
    using assms(1) by (simp only: powr_powi)
  then have lo: "of_int e \<le> log 2 x"
    using pos by (simp add: le_log_iff)
  have "x < 2 powr (of_int (e + 1))"
    using assms(2) by (simp only: powr_powi)
  then have hi: "log 2 x < of_int (e + 1)"
    using pos by (simp add: log_less_iff)
  from lo hi show ?thesis
    by (simp add: floor_eq_iff)
qed

lemma round_real_binade:
  assumes "2 powi e \<le> \<bar>x\<bar>" and "\<bar>x\<bar> < 2 powi (e + 1)" and "- 1022 \<le> e"
  shows "round_real x = of_int (rne (x / 2 powi (e - 52))) * 2 powi (e - 52)"
proof -
  have "(0::real) < 2 powi e" by simp
  with assms(1) have "0 < \<bar>x\<bar>" by linarith
  then have "x \<noteq> 0" by simp
  moreover have "\<lfloor>log 2 \<bar>x\<bar>\<rfloor> = e"
    using assms(1,2) by (rule floor_log2)
  ultimately show ?thesis
    using assms(3) by (simp add: round_real_def Let_def max_def)
qed

text \<open>
  How a rounding is evaluated: \<open>e\<close> is the binary exponent of \<open>x\<close> and \<open>m\<close> the
  significand of the result, an integer of at most 53 bits.
\<close>

lemma round64_eval:
  assumes "2 powi e \<le> \<bar>x\<bar>" and "\<bar>x\<bar> < 2 powi (e + 1)" and "- 1022 \<le> e"
    and "rne (x / 2 powi (e - 52)) = m" and "y = of_int m * 2 powi (e - 52)"
    and "\<bar>y\<bar> < 2 ^ 1024"
  shows "round64 x = Finite y"
proof -
  have "round_real x = y"
    using round_real_binade [OF assms(1-3)] assms(4,5) by simp
  then show ?thesis
    using assms(6) by (simp add: round64_def)
qed

lemma round64_eval_overflow:
  assumes "2 powi e \<le> \<bar>x\<bar>" and "\<bar>x\<bar> < 2 powi (e + 1)" and "- 1022 \<le> e"
    and "rne (x / 2 powi (e - 52)) = m"
    and "(2::real) ^ 1024 \<le> \<bar>of_int m * 2 powi (e - 52)\<bar>"
  shows "round64 x = Infinite (x < 0)"
proof -
  have "round_real x = of_int m * 2 powi (e - 52)"
    using round_real_binade [OF assms(1-3)] assms(4) by simp
  then show ?thesis
    using assms(5) by (simp add: round64_def)
qed

lemma rne_minus: "rne (- t) = - rne t"
proof (cases "t = of_int \<lfloor>t\<rfloor>")
  case True
  then have "\<lfloor>- t\<rfloor> = - \<lfloor>t\<rfloor>"
    by (metis floor_of_int of_int_minus)
  with True show ?thesis
    by (simp add: rne_def Let_def)
next
  case False
  then have lo: "of_int \<lfloor>t\<rfloor> < t"
    by (metis of_int_floor_le order_le_less)
  have hi: "t < of_int \<lfloor>t\<rfloor> + 1"
    by linarith
  have "real_of_int (- \<lfloor>t\<rfloor> - 1) = - of_int \<lfloor>t\<rfloor> - 1"
    by simp
  with lo hi
  have "of_int (- \<lfloor>t\<rfloor> - 1) \<le> - t" and "- t < of_int (- \<lfloor>t\<rfloor> - 1) + 1"
    by linarith+
  then have fl: "\<lfloor>- t\<rfloor> = - \<lfloor>t\<rfloor> - 1"
    by (rule floor_unique)
  show ?thesis
    by (simp add: rne_def Let_def fl)
qed

lemma round_real_minus: "round_real (- x) = - round_real x"
  by (simp add: round_real_def Let_def rne_minus)

lemma round64_minus:
  "round64 (- x) = (case round64 x of Finite y \<Rightarrow> Finite (- y) | Infinite n \<Rightarrow> Infinite (\<not> n) | NaN \<Rightarrow> NaN)"
proof (cases "x = 0")
  case True
  then show ?thesis by (simp add: round64_def round_real_def)
next
  case False
  have "2 ^ 1024 \<le> \<bar>round_real x\<bar> \<Longrightarrow> x < 0 \<or> 0 < x"
    using False by auto
  then show ?thesis
    using False by (auto simp: round64_def round_real_minus Let_def)
qed

lemma fmul_Finite: "fmul (Finite x) (Finite y) = round64 (x * y)"
  by (simp add: fmul_def)

lemma fdiv_Finite: "fdiv (Finite x) d = round64 (x / d)"
  by (simp add: fdiv_def)

text \<open>
  A rounding in the range of the normal numbers changes its argument by a relative
  error of at most \<open>2 powi (- 53)\<close>.
\<close>

lemma rne_error: "\<bar>of_int (rne t) - t\<bar> \<le> 1 / 2"
proof -
  have "of_int \<lfloor>t\<rfloor> \<le> t" and "t < of_int \<lfloor>t\<rfloor> + 1"
    by linarith+
  then show ?thesis
    by (auto simp: rne_def Let_def)
qed

lemma round_real_error:
  assumes "2 powi (- 1022) \<le> \<bar>x\<bar>"
  shows "\<bar>round_real x - x\<bar> \<le> 2 powi (- 53) * \<bar>x\<bar>"
proof -
  define e where "e = \<lfloor>log 2 \<bar>x\<bar>\<rfloor>"
  define u :: real where "u = 2 powi (e - 52)"
  have "(0::real) < 2 powi (- 1022)" by simp
  with assms have pos: "0 < \<bar>x\<bar>" by linarith
  then have nz: "x \<noteq> 0" by simp
  have "2 powr (of_int (- 1022)) \<le> \<bar>x\<bar>"
    using assms by (simp only: powr_powi)
  then have "of_int (- 1022) \<le> log 2 \<bar>x\<bar>"
    using pos by (simp add: le_log_iff)
  then have lo: "- 1022 \<le> e"
    unfolding e_def by (simp add: le_floor_iff)
  have "of_int e \<le> log 2 \<bar>x\<bar>"
    unfolding e_def by simp
  then have "2 powr (of_int e) \<le> \<bar>x\<bar>"
    using pos by (simp add: le_log_iff)
  then have big: "2 powi e \<le> \<bar>x\<bar>"
    by (simp only: powr_powi)
  have upos: "0 < u"
    by (simp add: u_def)
  from lo have mx: "max e (- 1022) = e"
    by (rule max_absorb1)
  have rr: "round_real x = of_int (rne (x / u)) * u"
    unfolding round_real_def Let_def e_def [symmetric] mx u_def using nz by simp
  have "round_real x - x = (of_int (rne (x / u)) - x / u) * u"
    using upos by (simp add: rr algebra_simps)
  then have "\<bar>round_real x - x\<bar> = \<bar>of_int (rne (x / u)) - x / u\<bar> * u"
    using upos by (simp add: abs_mult)
  also have "\<dots> \<le> 1 / 2 * u"
    using rne_error [of "x / u"] upos by (intro mult_right_mono) simp_all
  also have "1 / 2 * u = 2 powi (- 53) * 2 powi e"
  proof -
    have "u = 2 powi (e + (- 52))"
      by (simp add: u_def)
    also have "\<dots> = 2 powi e * 2 powi (- 52)"
      by (rule power_int_add) simp
    finally show ?thesis
      by (simp add: power_int_minus)
  qed
  also have "\<dots> \<le> 2 powi (- 53) * \<bar>x\<bar>"
    using big by (intro mult_left_mono) simp_all
  finally show ?thesis .
qed

lemma rel_step:
  fixes a b t :: real
  assumes "\<bar>b - t\<bar> \<le> d * \<bar>t\<bar>" and "\<bar>a - b\<bar> \<le> r * \<bar>b\<bar>" and "0 \<le> r"
  shows "\<bar>a - t\<bar> \<le> (d + r + d * r) * \<bar>t\<bar>"
proof -
  have "\<bar>b\<bar> \<le> \<bar>t\<bar> + \<bar>b - t\<bar>"
    by linarith
  with assms(1) have "\<bar>b\<bar> \<le> (1 + d) * \<bar>t\<bar>"
    by (simp add: algebra_simps)
  with assms(3) have "r * \<bar>b\<bar> \<le> r * ((1 + d) * \<bar>t\<bar>)"
    by (intro mult_left_mono)
  with assms(2) have "\<bar>a - b\<bar> \<le> r * ((1 + d) * \<bar>t\<bar>)"
    by linarith
  moreover have "\<bar>a - t\<bar> \<le> \<bar>a - b\<bar> + \<bar>b - t\<bar>"
    by linarith
  ultimately have "\<bar>a - t\<bar> \<le> r * ((1 + d) * \<bar>t\<bar>) + d * \<bar>t\<bar>"
    using assms(1) by linarith
  then show ?thesis
    by (simp add: algebra_simps)
qed

lemma round64_normal:
  assumes "2 powi (- 1022) \<le> \<bar>x\<bar>" and "\<bar>x\<bar> \<le> 2 ^ 1023"
  shows "round64 x = Finite (round_real x)"
    and "\<bar>round_real x - x\<bar> \<le> 2 powi (- 53) * \<bar>x\<bar>"
    and "\<bar>x\<bar> / 2 \<le> \<bar>round_real x\<bar>"
    and "\<bar>round_real x\<bar> \<le> 2 * \<bar>x\<bar>"
proof -
  show err: "\<bar>round_real x - x\<bar> \<le> 2 powi (- 53) * \<bar>x\<bar>"
    using assms(1) by (rule round_real_error)
  have "(2::real) powi (- 53) \<le> 1 / 2"
    by (simp add: power_int_minus)
  then have "2 powi (- 53) * \<bar>x\<bar> \<le> 1 / 2 * \<bar>x\<bar>"
    by (intro mult_right_mono) simp_all
  with err have half: "\<bar>round_real x - x\<bar> \<le> \<bar>x\<bar> / 2"
    by simp
  then show "\<bar>x\<bar> / 2 \<le> \<bar>round_real x\<bar>" and up: "\<bar>round_real x\<bar> \<le> 2 * \<bar>x\<bar>"
    by linarith+
  from half have "\<bar>round_real x\<bar> \<le> 3 / 2 * \<bar>x\<bar>"
    by linarith
  also have "\<dots> \<le> 3 / 2 * 2 ^ 1023"
    using assms(2) by (intro mult_left_mono) simp_all
  also have "\<dots> < (2::real) ^ 1024"
    by simp
  finally show "round64 x = Finite (round_real x)"
    by (simp add: round64_def)
qed

subsection \<open>The price transform at some prices\<close>

lemmas round_eval = rne_def power_int_minus Let_def

lemma float_1_24: "round64 1.24 = Finite (5584463537939415 / 2 ^ 52)"
  by (rule round64_eval [where e = 0 and m = 5584463537939415]) (simp_all add: round_eval)

lemma float_1_86: "round64 1.86 = Finite (8376695306909123 / 2 ^ 52)"
  by (rule round64_eval [where e = 0 and m = 8376695306909123]) (simp_all add: round_eval)

lemma float_minus_0_62: "round64 (- 0.62) = Finite (- (5584463537939415 / 2 ^ 53))"
  by (rule round64_eval [where e = "- 1" and m = "- 5584463537939415"])
    (simp_all add: round_eval)

lemma convert_10: "convert_price_to_cents_with_vat24 (Finite 10) = round64 1.24"
proof -
  have a: "round64 (5584463537939415 / 2 ^ 52 * 10) = Finite (6980579422424269 / 2 ^ 49)"
    by (rule round64_eval [where e = 3 and m = 6980579422424269]) (simp_all add: round_eval)
  have b: "round64 (6980579422424269 / 2 ^ 49 * 100) = Finite 1240"
    by (rule round64_eval [where e = 10 and m = 5453577673768960]) (simp_all add: round_eval)
  have c: "round64 (1240 / 1000) = Finite (5584463537939415 / 2 ^ 52)"
    by (rule round64_eval [where e = 0 and m = 5584463537939415]) (simp_all add: round_eval)
  show ?thesis
    unfolding convert_price_to_cents_with_vat24_def float_1_24 fmul_Finite a b fdiv_Finite c ..
qed

lemma convert_minus_5: "convert_price_to_cents_with_vat24 (Finite (- 5)) = round64 (- 0.62)"
proof -
  have a: "round64 (5584463537939415 / 2 ^ 52 * - 5) = Finite (- (6980579422424269 / 2 ^ 50))"
    by (rule round64_eval [where e = 2 and m = "- 6980579422424269"])
      (simp_all add: round_eval)
  have b: "round64 (- (6980579422424269 / 2 ^ 50) * 100) = Finite (- 620)"
    by (rule round64_eval [where e = 9 and m = "- 5453577673768960"])
      (simp_all add: round_eval)
  have c: "round64 (- 620 / 1000) = Finite (- (5584463537939415 / 2 ^ 53))"
    by (rule round64_eval [where e = "- 1" and m = "- 5584463537939415"])
      (simp_all add: round_eval)
  show ?thesis
    unfolding convert_price_to_cents_with_vat24_def float_1_24 float_minus_0_62 fmul_Finite a b
      fdiv_Finite c ..
qed

lemma convert_15:
  "convert_price_to_cents_with_vat24 (Finite 15) = Finite (2094173826727281 / 2 ^ 50)"
proof -
  have a: "round64 (5584463537939415 / 2 ^ 52 * 15) = Finite (2617717283409101 / 2 ^ 47)"
    by (rule round64_eval [where e = 4 and m = 5235434566818202]) (simp_all add: round_eval)
  have b: "round64 (2617717283409101 / 2 ^ 47 * 100) = Finite (8180366510653441 / 2 ^ 42)"
    by (rule round64_eval [where e = 10 and m = 8180366510653441]) (simp_all add: round_eval)
  have c: "round64 (8180366510653441 / 2 ^ 42 / 1000) = Finite (2094173826727281 / 2 ^ 50)"
    by (rule round64_eval [where e = 0 and m = 8376695306909124]) (simp_all add: round_eval)
  show ?thesis
    unfolding convert_price_to_cents_with_vat24_def float_1_24 fmul_Finite a b fdiv_Finite c ..
qed

text \<open>The expression \<^verbatim>\<open>1.24 * 15.0 / 10\<close>, evaluated in the same way, gives \<^verbatim>\<open>1.86\<close>.\<close>

lemma short_formula_15: "fdiv (fmul (round64 1.24) (Finite 15)) 10 = round64 1.86"
proof -
  have a: "round64 (5584463537939415 / 2 ^ 52 * 15) = Finite (2617717283409101 / 2 ^ 47)"
    by (rule round64_eval [where e = 4 and m = 5235434566818202]) (simp_all add: round_eval)
  have b: "round64 (2617717283409101 / 2 ^ 47 / 10) = Finite (8376695306909123 / 2 ^ 52)"
    by (rule round64_eval [where e = 0 and m = 8376695306909123]) (simp_all add: round_eval)
  show ?thesis
    unfolding float_1_24 float_1_86 fmul_Finite a fdiv_Finite b ..
qed

lemma convert_overflows:
  "convert_price_to_cents_with_vat24 (Finite (2 ^ 1020)) = Infinite False"
proof -
  have a: "round64 (5584463537939415 / 2 ^ 52 * 2 ^ 1020) = Finite (5584463537939415 * 2 ^ 968)"
    by (rule round64_eval [where e = 1020 and m = 5584463537939415])
      (simp_all add: round_eval)
  have "round64 (5584463537939415 * 2 ^ 968 * 100) = Infinite (5584463537939415 * 2 ^ 968 * 100 < (0::real))"
    by (rule round64_eval_overflow [where e = 1026 and m = 8725724278030336])
      (simp_all add: round_eval)
  then have b: "round64 (5584463537939415 * 2 ^ 968 * 100) = Infinite False"
    by simp
  show ?thesis
    unfolding convert_price_to_cents_with_vat24_def float_1_24 fmul_Finite a b
    by (simp add: fdiv_def)
qed

lemma convert_0: "convert_price_to_cents_with_vat24 (Finite 0) = Finite 0"
  unfolding convert_price_to_cents_with_vat24_def float_1_24
  by (simp add: fmul_def fdiv_def round64_def round_real_def)

lemma convert_special:
  "convert_price_to_cents_with_vat24 NaN = NaN"
  "convert_price_to_cents_with_vat24 (Infinite n) = Infinite n"
  unfolding convert_price_to_cents_with_vat24_def float_1_24
  by (simp_all add: fmul_def fdiv_def)

lemma round64_fneg: "round64 (- x) = fneg (round64 x)"
  by (simp add: round64_minus fneg_def)

lemma fmul_fneg: "fmul a (fneg b) = fneg (fmul a b)"
proof (cases a)
  case (Finite x)
  then show ?thesis
    by (cases b) (auto simp: fmul_def fneg_def round64_minus)
next
  case (Infinite n)
  then show ?thesis
    by (cases b) (auto simp: fmul_def fneg_def)
next
  case NaN
  then show ?thesis
    by (cases b) (simp_all add: fmul_def fneg_def)
qed

lemma fmul_fneg_left: "fmul (fneg a) b = fneg (fmul a b)"
proof (cases a)
  case (Finite x)
  then show ?thesis
    by (cases b) (auto simp: fmul_def fneg_def round64_minus)
next
  case (Infinite n)
  then show ?thesis
    by (cases b) (auto simp: fmul_def fneg_def)
next
  case NaN
  then show ?thesis
    by (cases b) (simp_all add: fmul_def fneg_def)
qed

lemma fdiv_fneg: "0 < d \<Longrightarrow> fdiv (fneg a) d = fneg (fdiv a d)"
  by (cases a) (simp_all add: fdiv_def fneg_def round64_minus)

lemma convert_fneg:
  "convert_price_to_cents_with_vat24 (fneg price) = fneg (convert_price_to_cents_with_vat24 price)"
  by (simp add: convert_price_to_cents_with_vat24_def fmul_fneg fmul_fneg_left fdiv_fneg)

subsection \<open>The accuracy of the price transform\<close>

lemma convert_accuracy:
  assumes "2 powi (- 1000) \<le> \<bar>x\<bar>" and "\<bar>x\<bar> \<le> 2 ^ 1000"
  shows "\<exists>y. convert_price_to_cents_with_vat24 (Finite x) = Finite y \<and>
             \<bar>y - 1.24 * x / 10\<bar> \<le> 2 powi (- 50) * \<bar>1.24 * x / 10\<bar>"
proof -
  define c :: real where "c = 5584463537939415 / 2 ^ 52"
  define r :: real where "r = 2 powi (- 53)"
  define a1 where "a1 = round_real (c * x)"
  define a2 where "a2 = round_real (a1 * 100)"
  define a3 where "a3 = round_real (a2 / 1000)"
  define lo :: real where "lo = 2 powi (- 1000)"
  define hi :: real where "hi = 2 ^ 1000"
  define tiny :: real where "tiny = 2 powi (- 1022)"
  define huge :: real where "huge = 2 ^ 1023"
  have r: "0 \<le> r" "r \<le> 1 / 2 ^ 53"
    by (simp_all add: r_def power_int_minus)
  have c: "1 \<le> c" "c \<le> 2" "\<bar>c - 1.24\<bar> \<le> r * 1.24"
    by (simp_all add: c_def r_def power_int_minus)
  have pos: "0 < lo" "0 < hi"
    by (simp_all add: lo_def hi_def)
  have x: "lo \<le> \<bar>x\<bar>" "\<bar>x\<bar> \<le> hi"
    using assms by (simp_all add: lo_def hi_def)
  have small: "tiny * 1024 \<le> lo" and big: "hi * 1024 \<le> huge"
    by (simp_all add: lo_def hi_def tiny_def huge_def power_int_minus)
  have p1: "lo \<le> \<bar>c * x\<bar>" "\<bar>c * x\<bar> \<le> 2 * hi"
  proof -
    have "\<bar>c * x\<bar> = c * \<bar>x\<bar>"
      using c(1) by (simp add: abs_mult)
    moreover have "1 * \<bar>x\<bar> \<le> c * \<bar>x\<bar>"
      using c(1) by (intro mult_right_mono) simp_all
    moreover have "c * \<bar>x\<bar> \<le> 2 * \<bar>x\<bar>"
      using c(2) by (intro mult_right_mono) simp_all
    ultimately show "lo \<le> \<bar>c * x\<bar>" "\<bar>c * x\<bar> \<le> 2 * hi"
      using x by linarith+
  qed
  have n1: "tiny \<le> \<bar>c * x\<bar>" "\<bar>c * x\<bar> \<le> huge"
    using p1 small big pos by linarith+
  note s1 = round64_normal [OF n1 [unfolded tiny_def huge_def], folded a1_def r_def]
  have p2: "50 * lo \<le> \<bar>a1 * 100\<bar>" "\<bar>a1 * 100\<bar> \<le> 400 * hi"
    using s1(3,4) p1 by (simp_all add: abs_mult)
  have n2: "tiny \<le> \<bar>a1 * 100\<bar>" "\<bar>a1 * 100\<bar> \<le> huge"
    using p2 small big pos by linarith+
  note s2 = round64_normal [OF n2 [unfolded tiny_def huge_def], folded a2_def r_def]
  have p3: "lo / 40 \<le> \<bar>a2 / 1000\<bar>" "\<bar>a2 / 1000\<bar> \<le> hi"
    using s2(3,4) p2 by simp_all
  have n3: "tiny \<le> \<bar>a2 / 1000\<bar>" "\<bar>a2 / 1000\<bar> \<le> huge"
    using p3 small big pos by linarith+
  note s3 = round64_normal [OF n3 [unfolded tiny_def huge_def], folded a3_def r_def]
  have result: "convert_price_to_cents_with_vat24 (Finite x) = Finite a3"
    unfolding convert_price_to_cents_with_vat24_def float_1_24 c_def [symmetric] fmul_Finite
      s1(1) s2(1) fdiv_Finite s3(1) ..
  define t where "t = 1.24 * x"
  have "\<bar>c * x - t\<bar> = \<bar>(c - 1.24) * x\<bar>"
    by (simp add: t_def algebra_simps)
  also have "\<dots> = \<bar>c - 1.24\<bar> * \<bar>x\<bar>"
    by (rule abs_mult)
  also have "\<dots> \<le> r * 1.24 * \<bar>x\<bar>"
    using c(3) by (intro mult_right_mono) simp_all
  also have "\<dots> = r * \<bar>t\<bar>"
    by (simp add: t_def abs_mult)
  finally have e0: "\<bar>c * x - t\<bar> \<le> r * \<bar>t\<bar>" .
  define d1 where "d1 = r + r + r * r"
  define d2 where "d2 = d1 + r + d1 * r"
  define d3 where "d3 = d2 + r + d2 * r"
  have d: "0 \<le> d1" "0 \<le> d2"
    using r(1) by (simp_all add: d1_def d2_def)
  from rel_step [OF e0 s1(2) r(1)]
  have e1: "\<bar>a1 - t\<bar> \<le> d1 * \<bar>t\<bar>"
    by (simp only: d1_def)
  have "\<bar>a1 * 100 - t * 100\<bar> = \<bar>(a1 - t) * 100\<bar>"
    by (simp add: algebra_simps)
  also have "\<dots> = \<bar>a1 - t\<bar> * 100"
    by (simp only: abs_mult abs_numeral)
  also have "\<dots> \<le> d1 * \<bar>t\<bar> * 100"
    using e1 by simp
  also have "\<dots> = d1 * \<bar>t * 100\<bar>"
    by (simp add: abs_mult)
  finally have e1': "\<bar>a1 * 100 - t * 100\<bar> \<le> d1 * \<bar>t * 100\<bar>" .
  from rel_step [OF e1' s2(2) r(1)]
  have e2: "\<bar>a2 - t * 100\<bar> \<le> d2 * \<bar>t * 100\<bar>"
    by (simp only: d2_def)
  have "\<bar>a2 / 1000 - t * 100 / 1000\<bar> = \<bar>(a2 - t * 100) / 1000\<bar>"
    by (simp add: diff_divide_distrib)
  also have "\<dots> = \<bar>a2 - t * 100\<bar> / 1000"
    by (simp only: abs_divide abs_numeral)
  also have "\<dots> \<le> d2 * \<bar>t * 100\<bar> / 1000"
    using e2 by (simp add: divide_right_mono)
  also have "\<dots> = d2 * \<bar>t * 100 / 1000\<bar>"
    by (simp add: abs_mult)
  finally have e2': "\<bar>a2 / 1000 - t * 100 / 1000\<bar> \<le> d2 * \<bar>t * 100 / 1000\<bar>" .
  from rel_step [OF e2' s3(2) r(1)]
  have e3: "\<bar>a3 - t * 100 / 1000\<bar> \<le> d3 * \<bar>t * 100 / 1000\<bar>"
    by (simp only: d3_def)
  have "d3 \<le> 2 powi (- 50)"
    by (simp add: d3_def d2_def d1_def r_def power_int_minus)
  then have "d3 * \<bar>t * 100 / 1000\<bar> \<le> 2 powi (- 50) * \<bar>t * 100 / 1000\<bar>"
    by (intro mult_right_mono) simp_all
  with e3 have "\<bar>a3 - t * 100 / 1000\<bar> \<le> 2 powi (- 50) * \<bar>t * 100 / 1000\<bar>"
    by linarith
  moreover have "t * 100 / 1000 = 1.24 * x / 10"
    by (simp add: t_def)
  ultimately have "\<bar>a3 - 1.24 * x / 10\<bar> \<le> 2 powi (- 50) * \<bar>1.24 * x / 10\<bar>"
    by (simp only:)
  with result show ?thesis
    by blast
qed

subsection \<open>The record builder as a concatenation\<close>

lemma inner_loop_appends:
  "foldl (\<lambda>body d. body @ [point a d]) acc hs = acc @ map (point a) hs"
  by (induction hs arbitrary: acc) simp_all

lemma outer_loop_appends:
  "foldl (\<lambda>body item. foldl (\<lambda>body d. body @ [point (fst item) d]) body (values (snd item))) acc xs
     = acc @ concat (map (\<lambda>item. map (point (fst item)) (values (snd item))) xs)"
  by (induction xs arbitrary: acc) (simp_all add: inner_loop_appends)

lemma json_body_concat:
  "json_body ap = concat (map (\<lambda>item. map (point (fst item)) (values (snd item))) (areas ap))"
  by (simp add: json_body_def outer_loop_appends)

lemma json_body_no_values:
  "\<forall>x \<in> set (areas ap). values (snd x) = [] \<Longrightarrow> json_body ap = []"
  by (simp add: json_body_concat)

subsection \<open>When a validation succeeds, and when it raises\<close>

lemma is_Valid_at_loc [simp]: "is_Valid (at_loc l r) = is_Valid r"
  by (cases r) (simp_all add: at_loc_def)

lemma at_loc_Overflow [simp]: "(at_loc l r = Overflow) = (r = Overflow)"
  by (cases r) (simp_all add: at_loc_def)

lemma Overflow_at_loc [simp]: "(Overflow = at_loc l r) = (r = Overflow)"
  by (cases r) (simp_all add: at_loc_def)

lemma is_Valid_map_valid [simp]: "is_Valid (map_valid f r) = is_Valid r"
  by (cases r) (simp_all add: map_valid_def)

lemma map_valid_Overflow [simp]: "(map_valid f r = Overflow) = (r = Overflow)"
  by (cases r) (simp_all add: map_valid_def)

lemma is_Valid_both [simp]: "is_Valid (both r s) = (is_Valid r \<and> is_Valid s)"
  by (cases r; cases s) (simp_all add: both_def)

lemma both_Overflow [simp]: "(both r s = Overflow) = (r = Overflow \<or> s = Overflow)"
  by (cases r; cases s) (simp_all add: both_def)

lemma is_Valid_not_none: "\<not> is_Valid (val v) \<Longrightarrow> \<not> is_Valid (not_none val v)"
  by (simp add: not_none_def)

lemma not_none_Overflow: "not_none val v = Overflow \<Longrightarrow> val v = Overflow"
  by (simp add: not_none_def split: if_splits)

lemma is_Valid_collect: "is_Valid (collect rs) = (\<forall>r \<in> set rs. is_Valid r)"
  by (induction rs) simp_all

lemma collect_Overflow: "(collect rs = Overflow) = (Overflow \<in> set rs)"
  by (induction rs) auto

lemma is_Valid_list_items:
  "(\<forall>r \<in> set (map (\<lambda>(i, x). at_loc (Idx i) (not_none item x)) (enumerate n xs)). is_Valid r)
     = (\<forall>x \<in> set xs. is_Valid (not_none item x))"
  by (induction xs arbitrary: n) simp_all

lemma list_items_Overflow:
  "(Overflow \<in> set (map (\<lambda>(i, x). at_loc (Idx i) (not_none item x)) (enumerate n xs)))
     = (\<exists>x \<in> set xs. not_none item x = Overflow)"
  by (induction xs arbitrary: n) simp_all

lemma is_Valid_list_validator:
  "is_Valid (list_validator item (PList xs)) = (\<forall>x \<in> set xs. is_Valid (not_none item x))"
  by (simp add: list_validator_def is_Valid_collect is_Valid_list_items del: set_map)

lemma list_validator_Overflow:
  "list_validator item v = Overflow \<Longrightarrow>
   \<exists>xs. v = PList xs \<and> (\<exists>x \<in> set xs. not_none item x = Overflow)"
  by (cases v) (simp_all add: list_validator_def collect_Overflow list_items_Overflow del: set_map)

lemma is_Valid_required_field:
  "map_of kvs n = Some v \<Longrightarrow> v \<noteq> PNone \<Longrightarrow>
   is_Valid (required_field kvs n val) = is_Valid (val v)"
  by (simp add: required_field_def)

lemma required_field_Overflow:
  "required_field kvs n val = Overflow \<Longrightarrow>
   \<exists>v. map_of kvs n = Some v \<and> v \<noteq> PNone \<and> val v = Overflow"
  by (simp add: required_field_def split: option.splits if_splits)

lemma is_Valid_HourlyPrice_init:
  "is_Valid (HourlyPrice_init L kvs)
     = (is_Valid (required_field kvs ''start'' (datetime_validator L)) \<and>
        is_Valid (required_field kvs ''value'' (float_validator L)))"
  by (simp add: HourlyPrice_init_def Let_def)

text \<open>The loop of the mapping validator.\<close>

lemma is_Valid_dict_loop:
  "is_Valid (dict_loop item kvs res errs)
     = (errs = [] \<and> (\<forall>kv \<in> set kvs. is_Valid (not_none item (snd kv))))"
proof (induction kvs arbitrary: res errs)
  case Nil
  then show ?case by simp
next
  case (Cons kv kvs)
  show ?case
    by (cases "not_none item (snd kv)") (simp_all add: Cons.IH at_loc_def)
qed

lemma dict_loop_Overflow:
  "dict_loop item kvs res errs = Overflow \<Longrightarrow> \<exists>kv \<in> set kvs. not_none item (snd kv) = Overflow"
proof (induction kvs arbitrary: res errs)
  case Nil
  then show ?case by (simp split: if_splits)
next
  case (Cons kv kvs)
  then show ?case
    by (cases "not_none item (snd kv)") (auto simp: at_loc_def)
qed

lemma set_update_subset:
  "set (AList.update k v al) \<subseteq> insert (k, v) (set al)"
  by (induction al) auto

lemma dict_loop_values:
  "\<forall>kv \<in> set kvs. not_none item (snd kv) = Valid z \<Longrightarrow> \<forall>x \<in> set res. snd x = z \<Longrightarrow>
   \<exists>res'. dict_loop item kvs res [] = Valid res' \<and> (\<forall>x \<in> set res'. snd x = z)"
proof (induction kvs arbitrary: res)
  case Nil
  then show ?case by simp
next
  case (Cons kv kvs)
  have "\<forall>x \<in> set (AList.update (fst kv) z res). snd x = z"
    using Cons.prems(2) set_update_subset [of "fst kv" z res] by auto
  moreover have "\<forall>kv \<in> set kvs. not_none item (snd kv) = Valid z"
    using Cons.prems(1) by simp
  ultimately have
    "\<exists>res'. dict_loop item kvs (AList.update (fst kv) z res) [] = Valid res' \<and>
            (\<forall>x \<in> set res'. snd x = z)"
    by (rule Cons.IH [rotated])
  then show ?case
    using Cons.prems(1) by (simp add: at_loc_def)
qed

lemma dict_validator_Valid:
  assumes "as_dict L v = Some kvs" and "\<forall>kv \<in> set kvs. not_none item (snd kv) = Valid z"
  shows "\<exists>res. dict_validator L item v = Valid res \<and> (\<forall>x \<in> set res. snd x = z)"
  using dict_loop_values [OF assms(2), of "[]"] assms(1) by (simp add: dict_validator_def)

text \<open>From one defective hourly entry up to the whole response.\<close>

lemma lacking_required_field:
  assumes "case map_of kvs n of None \<Rightarrow> True | Some v \<Rightarrow> v = PNone \<or> is_Invalid (val v)"
  shows "\<not> is_Valid (required_field kvs n val)"
proof (cases "map_of kvs n")
  case None
  then show ?thesis by (simp add: required_field_def)
next
  case (Some v)
  show ?thesis
  proof (cases "v = PNone")
    case True
    with Some show ?thesis by (simp add: required_field_def)
  next
    case False
    with assms Some have "is_Invalid (val v)" by simp
    then have "\<not> is_Valid (val v)" by (cases "val v") simp_all
    with Some False show ?thesis by (simp add: is_Valid_required_field)
  qed
qed

lemma entry_lacking_field_rejected:
  assumes "lacks_field L ''start'' (datetime_validator L) h \<or>
           lacks_field L ''value'' (float_validator L) h"
  shows "\<not> is_Valid (model_validator L (HourlyPrice_init L) h)"
proof (cases "as_dict L h")
  case None
  then show ?thesis by (simp add: model_validator_def)
next
  case (Some kvs)
  from assms have "\<not> is_Valid (required_field kvs ''start'' (datetime_validator L)) \<or>
        \<not> is_Valid (required_field kvs ''value'' (float_validator L))"
  proof
    assume "lacks_field L ''start'' (datetime_validator L) h"
    with Some have "\<not> is_Valid (required_field kvs ''start'' (datetime_validator L))"
      by (intro lacking_required_field) (simp add: lacks_field_def)
    then show ?thesis ..
  next
    assume "lacks_field L ''value'' (float_validator L) h"
    with Some have "\<not> is_Valid (required_field kvs ''value'' (float_validator L))"
      by (intro lacking_required_field) (simp add: lacks_field_def)
    then show ?thesis ..
  qed
  then show ?thesis
    using Some by (auto simp: model_validator_def is_Valid_HourlyPrice_init)
qed

lemma area_with_bad_entry_rejected:
  assumes "h \<in> set (area_entries L av)"
    and "\<not> is_Valid (model_validator L (HourlyPrice_init L) h)"
  shows "\<not> is_Valid (model_validator L (AreaValues_init L) av)"
proof -
  from assms(1) obtain kvs where kvs: "as_dict L av = Some kvs"
    by (cases "as_dict L av") (simp_all add: area_entries_def)
  from assms(1) kvs obtain v where v: "map_of kvs ''values'' = Some v"
    by (cases "map_of kvs ''values''") (simp_all add: area_entries_def)
  from assms(1) kvs v obtain hs where hs: "map_of kvs ''values'' = Some (PList hs)"
    and h: "h \<in> set hs"
    by (cases v) (simp_all add: area_entries_def)
  have "\<not> is_Valid (list_validator (model_validator L (HourlyPrice_init L)) (PList hs))"
    using h assms(2) by (auto simp: is_Valid_list_validator dest: is_Valid_not_none)
  then have "\<not> is_Valid (required_field kvs ''values''
                            (list_validator (model_validator L (HourlyPrice_init L))))"
    using hs by (simp add: is_Valid_required_field)
  then show ?thesis
    using kvs by (simp add: model_validator_def AreaValues_init_def)
qed

lemma is_Valid_parse_obj:
  "is_Valid (AreaPrices_parse_obj L raw)
     = (case area_map L raw of
          None \<Rightarrow> False
        | Some am \<Rightarrow>
            \<forall>kv \<in> set am. is_Valid (not_none (model_validator L (AreaValues_init L)) (snd kv)))"
proof (cases "as_dict L raw")
  case None
  then show ?thesis by (simp add: AreaPrices_parse_obj_def area_map_def)
next
  case top: (Some kvs)
  show ?thesis
  proof (cases "map_of kvs ''areas''")
    case None
    with top show ?thesis
      by (simp add: AreaPrices_parse_obj_def AreaPrices_init_def area_map_def required_field_def)
  next
    case (Some a)
    show ?thesis
    proof (cases "a = PNone")
      case True
      with top Some show ?thesis
        by (simp add: AreaPrices_parse_obj_def AreaPrices_init_def area_map_def
            required_field_def)
    next
      case False
      have init: "is_Valid (AreaPrices_parse_obj L raw)
                    = is_Valid (dict_validator L (model_validator L (AreaValues_init L)) a)"
        using top Some False
        by (simp add: AreaPrices_parse_obj_def AreaPrices_init_def is_Valid_required_field)
      show ?thesis
      proof (cases "as_dict L a")
        case None
        with top Some False init show ?thesis
          by (simp add: area_map_def dict_validator_def)
      next
        case am: (Some am)
        then have "is_Valid (dict_validator L (model_validator L (AreaValues_init L)) a)
                = (\<forall>kv \<in> set am.
                     is_Valid (not_none (model_validator L (AreaValues_init L)) (snd kv)))"
          by (simp add: dict_validator_def is_Valid_dict_loop)
        then show ?thesis
          using top Some False am init by (simp add: area_map_def)
      qed
    qed
  qed
qed

lemma malformed_rejected:
  assumes "area_map L raw = None \<or>
           (\<exists>h \<in> set (hourly_entries L raw).
              lacks_field L ''start'' (datetime_validator L) h \<or>
              lacks_field L ''value'' (float_validator L) h)"
  shows "\<not> is_Valid (AreaPrices_parse_obj L raw)"
proof (cases "area_map L raw")
  case None
  then show ?thesis by (simp add: is_Valid_parse_obj)
next
  case (Some am)
  with assms obtain h where h: "h \<in> set (hourly_entries L raw)"
    and bad: "lacks_field L ''start'' (datetime_validator L) h \<or>
              lacks_field L ''value'' (float_validator L) h"
    by auto
  from h Some obtain kv where kv: "kv \<in> set am" and hk: "h \<in> set (area_entries L (snd kv))"
    by (auto simp: hourly_entries_def)
  have "\<not> is_Valid (model_validator L (HourlyPrice_init L) h)"
    using bad by (rule entry_lacking_field_rejected)
  with hk have "\<not> is_Valid (model_validator L (AreaValues_init L) (snd kv))"
    by (rule area_with_bad_entry_rejected)
  then have "\<not> is_Valid (not_none (model_validator L (AreaValues_init L)) (snd kv))"
    by (rule is_Valid_not_none)
  with kv Some show ?thesis
    by (auto simp: is_Valid_parse_obj)
qed

text \<open>Only an integer beyond the range of a float makes the validation raise.\<close>

lemma scalar_never_overflows:
  "str_validator L v \<noteq> Overflow" "int_validator L v \<noteq> Overflow"
  "datetime_validator L v \<noteq> Overflow"
  by (simp_all add: str_validator_def int_validator_def datetime_validator_def
      split: pyval.splits option.splits)

lemma float_validator_Overflow:
  "float_validator L v = Overflow \<Longrightarrow> \<exists>i. v = PInt i \<and> float_of_int i = None"
  by (cases v) (simp_all add: float_validator_def split: option.splits)

lemma entry_Overflow:
  assumes "model_validator L (HourlyPrice_init L) h = Overflow"
  shows "too_large L h"
proof -
  from assms obtain kvs where kvs: "as_dict L h = Some kvs"
    and init: "HourlyPrice_init L kvs = Overflow"
    by (cases "as_dict L h") (simp_all add: model_validator_def)
  from init have "required_field kvs ''start'' (datetime_validator L) = Overflow \<or>
                  required_field kvs ''value'' (float_validator L) = Overflow"
    by (simp add: HourlyPrice_init_def Let_def)
  moreover have "required_field kvs ''start'' (datetime_validator L) \<noteq> Overflow"
    using required_field_Overflow [of kvs "''start''" "datetime_validator L"]
      scalar_never_overflows(3) [of L]
    by blast
  ultimately obtain v where "map_of kvs ''value'' = Some v" and "float_validator L v = Overflow"
    using required_field_Overflow [of kvs "''value''" "float_validator L"] by blast
  then show ?thesis
    using kvs float_validator_Overflow [of L v] by (auto simp: too_large_def)
qed

lemma area_Overflow:
  assumes "model_validator L (AreaValues_init L) av = Overflow"
  shows "\<exists>h \<in> set (area_entries L av). too_large L h"
proof -
  from assms obtain kvs where kvs: "as_dict L av = Some kvs"
    and init: "AreaValues_init L kvs = Overflow"
    by (cases "as_dict L av") (simp_all add: model_validator_def)
  from init obtain v where v: "map_of kvs ''values'' = Some v"
    and lv: "list_validator (model_validator L (HourlyPrice_init L)) v = Overflow"
    using required_field_Overflow
      [of kvs "''values''" "list_validator (model_validator L (HourlyPrice_init L))"]
    by (auto simp: AreaValues_init_def)
  from list_validator_Overflow [OF lv] obtain hs h where hs: "v = PList hs" and h: "h \<in> set hs"
    and "not_none (model_validator L (HourlyPrice_init L)) h = Overflow"
    by blast
  then have "model_validator L (HourlyPrice_init L) h = Overflow"
    by (simp add: not_none_Overflow)
  then have "too_large L h"
    by (rule entry_Overflow)
  moreover have "h \<in> set (area_entries L av)"
    using kvs v hs h by (simp add: area_entries_def)
  ultimately show ?thesis by blast
qed

lemma parse_obj_Overflow:
  assumes "AreaPrices_parse_obj L raw = Overflow"
  shows "\<exists>h \<in> set (hourly_entries L raw). too_large L h"
proof -
  from assms obtain kvs where kvs: "as_dict L raw = Some kvs"
    and init: "AreaPrices_init L kvs = Overflow"
    by (cases "as_dict L raw") (simp_all add: AreaPrices_parse_obj_def)
  from init obtain a where a: "map_of kvs ''areas'' = Some a" and nn: "a \<noteq> PNone"
    and dv: "dict_validator L (model_validator L (AreaValues_init L)) a = Overflow"
    using required_field_Overflow
      [of kvs "''areas''" "dict_validator L (model_validator L (AreaValues_init L))"]
    by (auto simp: AreaPrices_init_def)
  from dv obtain am where am: "as_dict L a = Some am"
    and loop: "dict_loop (model_validator L (AreaValues_init L)) am [] [] = Overflow"
    by (cases "as_dict L a") (simp_all add: dict_validator_def)
  from dict_loop_Overflow [OF loop] obtain kv where kv: "kv \<in> set am"
    and "not_none (model_validator L (AreaValues_init L)) (snd kv) = Overflow"
    by blast
  then have "model_validator L (AreaValues_init L) (snd kv) = Overflow"
    by (simp add: not_none_Overflow)
  then obtain h where "h \<in> set (area_entries L (snd kv))" and "too_large L h"
    using area_Overflow by blast
  moreover have "area_map L raw = Some am"
    using kvs a nn am by (simp add: area_map_def)
  ultimately show ?thesis
    using kv by (auto simp: hourly_entries_def)
qed

subsection \<open>The errors of a field name the field\<close>

lemma scalar_errors_nonempty:
  "str_validator L v \<noteq> Invalid []" "int_validator L v \<noteq> Invalid []"
  by (simp_all add: str_validator_def int_validator_def split: pyval.splits option.splits)

lemma scalar_single_error:
  "int_validator L v = Invalid es \<Longrightarrow> \<exists>k. es = [([], k)]"
  "str_validator L v = Invalid es \<Longrightarrow> \<exists>k. es = [([], k)]"
  by (auto simp: int_validator_def str_validator_def split: pyval.splits option.splits)

lemma at_loc_Invalid:
  "r \<noteq> Invalid [] \<Longrightarrow> at_loc (Key n) r = Invalid es \<Longrightarrow>
   es \<noteq> [] \<and> (\<forall>e \<in> set es. \<exists>rest. fst e = Key n # rest)"
  by (cases r) (auto simp: at_loc_def)

lemma required_field_Invalid:
  assumes "\<And>v. val v \<noteq> Invalid []" and "required_field kvs n val = Invalid es"
  shows "es \<noteq> [] \<and> (\<forall>e \<in> set es. \<exists>rest. fst e = Key n # rest)"
proof (cases "map_of kvs n")
  case None
  with assms(2) show ?thesis by (auto simp: required_field_def)
next
  case (Some v)
  show ?thesis
  proof (cases "v = PNone")
    case True
    with Some assms(2) show ?thesis by (auto simp: required_field_def)
  next
    case False
    with Some assms(2) have "at_loc (Key n) (val v) = Invalid es"
      by (simp add: required_field_def)
    with assms(1) show ?thesis by (rule at_loc_Invalid)
  qed
qed

lemma default_field_Invalid:
  assumes "\<And>v. val v \<noteq> Invalid []" and "default_field kvs n d val = Invalid es"
  shows "es \<noteq> [] \<and> (\<forall>e \<in> set es. \<exists>rest. fst e = Key n # rest)"
proof (cases "map_of kvs n")
  case None
  with assms(2) show ?thesis by (auto simp: default_field_def)
next
  case (Some v)
  show ?thesis
  proof (cases "v = PNone")
    case True
    with Some assms(2) show ?thesis by (auto simp: default_field_def)
  next
    case False
    with Some assms(2) have "at_loc (Key n) (val v) = Invalid es"
      by (simp add: default_field_def)
    with assms(1) show ?thesis by (rule at_loc_Invalid)
  qed
qed

lemma optional_field_Invalid:
  assumes "\<And>v. val v \<noteq> Invalid []" and "optional_field kvs n val = Invalid es"
  shows "es \<noteq> [] \<and> (\<forall>e \<in> set es. \<exists>rest. fst e = Key n # rest)"
proof (cases "map_of kvs n")
  case None
  with assms(2) show ?thesis by (auto simp: optional_field_def)
next
  case (Some v)
  show ?thesis
  proof (cases "v = PNone")
    case True
    with Some assms(2) show ?thesis by (auto simp: optional_field_def)
  next
    case False
    with Some assms(2) have "at_loc (Key n) (val v) = Invalid es"
      by (cases "at_loc (Key n) (val v)") (simp_all add: optional_field_def map_valid_def)
    with assms(1) show ?thesis by (rule at_loc_Invalid)
  qed
qed

lemma both_Invalid:
  assumes "both r s = Invalid es"
    and "\<And>e. r = Invalid e \<Longrightarrow> e \<noteq> [] \<and> (\<forall>x \<in> set e. P x)"
    and "\<And>e. s = Invalid e \<Longrightarrow> e \<noteq> [] \<and> (\<forall>x \<in> set e. P x)"
  shows "es \<noteq> [] \<and> (\<forall>x \<in> set es. P x)"
  using assms by (cases r; cases s) (auto simp: both_def)

lemma map_valid_Invalid [simp]: "(map_valid f r = Invalid es) = (r = Invalid es)"
  by (cases r) (simp_all add: map_valid_def)

lemma both_keeps_left:
  "r = Invalid e \<Longrightarrow> s \<noteq> Overflow \<Longrightarrow> \<exists>es. both r s = Invalid es \<and> set e \<subseteq> set es"
  by (cases s) (simp_all add: both_def)

lemma both_keeps_right:
  "s = Invalid e \<Longrightarrow> r \<noteq> Overflow \<Longrightarrow> \<exists>es. both r s = Invalid es \<and> set e \<subseteq> set es"
  by (cases r) (simp_all add: both_def)

text \<open>The models of the configuration have no float field, so they never raise.\<close>

lemma default_field_Overflow:
  "default_field kvs n d val = Overflow \<Longrightarrow> \<exists>v. map_of kvs n = Some v \<and> val v = Overflow"
  by (simp add: default_field_def split: option.splits if_splits)

lemma optional_field_Overflow:
  "optional_field kvs n val = Overflow \<Longrightarrow> \<exists>v. map_of kvs n = Some v \<and> val v = Overflow"
  by (simp add: optional_field_def split: option.splits if_splits)

lemma config_fields_never_overflow:
  "required_field kvs n (str_validator L) \<noteq> Overflow"
  "optional_field kvs n (str_validator L) \<noteq> Overflow"
  "default_field kvs n s (str_validator L) \<noteq> Overflow"
  "default_field kvs n i (int_validator L) \<noteq> Overflow"
  using required_field_Overflow [of kvs n "str_validator L"]
    optional_field_Overflow [of kvs n "str_validator L"]
    default_field_Overflow [of kvs n s "str_validator L"]
    default_field_Overflow [of kvs n i "int_validator L"]
    scalar_never_overflows(1,2) [of L]
  by blast+

lemma InfluxDBConfig_never_overflows: "InfluxDBConfig_init L kvs \<noteq> Overflow"
  by (simp add: InfluxDBConfig_init_def Let_def config_fields_never_overflow)

lemma NordpoolConfig_never_overflows: "NordpoolConfig_init L kvs \<noteq> Overflow"
proof -
  have "list_validator (str_validator L) v \<noteq> Overflow" for v
    using list_validator_Overflow [of "str_validator L" v] not_none_Overflow [of "str_validator L"]
      scalar_never_overflows(1) [of L]
    by blast
  then have "required_field kvs ''areas'' (list_validator (str_validator L)) \<noteq> Overflow"
    using required_field_Overflow [of kvs "''areas''" "list_validator (str_validator L)"]
    by blast
  then show ?thesis
    by (simp add: NordpoolConfig_init_def Let_def config_fields_never_overflow)
qed

lemma CheckerConfig_never_overflows: "CheckerConfig_init L kvs \<noteq> Overflow"
proof -
  have "model_validator L (InfluxDBConfig_init L) v \<noteq> Overflow" for v
    by (cases "as_dict L v") (simp_all add: model_validator_def InfluxDBConfig_never_overflows)
  then have i: "required_field kvs ''influxdb'' (model_validator L (InfluxDBConfig_init L))
                  \<noteq> Overflow"
    using required_field_Overflow [of kvs "''influxdb''" "model_validator L (InfluxDBConfig_init L)"]
    by blast
  have "model_validator L (NordpoolConfig_init L) v \<noteq> Overflow" for v
    by (cases "as_dict L v") (simp_all add: model_validator_def NordpoolConfig_never_overflows)
  then have n: "required_field kvs ''nordpool'' (model_validator L (NordpoolConfig_init L))
                  \<noteq> Overflow"
    using required_field_Overflow [of kvs "''nordpool''" "model_validator L (NordpoolConfig_init L)"]
    by blast
  from i n show ?thesis
    by (simp add: CheckerConfig_init_def Let_def)
qed

lemma InfluxDBConfig_errors:
  assumes "InfluxDBConfig_init L kvs = Invalid es"
  shows "es \<noteq> [] \<and>
         (\<forall>e \<in> set es. \<exists>f \<in> set [''host'', ''retention_policy'', ''port'', ''database''].
                          \<exists>rest. fst e = Key f # rest)"
proof -
  define h where "h = required_field kvs ''host'' (str_validator L)"
  define r where "r = optional_field kvs ''retention_policy'' (str_validator L)"
  define p where "p = default_field kvs ''port'' 8086 (int_validator L)"
  define d where "d = default_field kvs ''database'' ''energy'' (str_validator L)"
  define P :: "verror \<Rightarrow> bool" where
    "P e = (\<exists>f \<in> set [''host'', ''retention_policy'', ''port'', ''database''].
              \<exists>rest. fst e = Key f # rest)" for e
  have hh: "e \<noteq> [] \<and> (\<forall>x \<in> set e. P x)" if "h = Invalid e" for e
  proof -
    from that have "required_field kvs ''host'' (str_validator L) = Invalid e"
      by (simp add: h_def)
    with scalar_errors_nonempty(1)
    have "e \<noteq> [] \<and> (\<forall>x \<in> set e. \<exists>rest. fst x = Key ''host'' # rest)"
      by (rule required_field_Invalid)
    then show ?thesis by (auto simp: P_def)
  qed
  have rr: "e \<noteq> [] \<and> (\<forall>x \<in> set e. P x)" if "r = Invalid e" for e
  proof -
    from that have "optional_field kvs ''retention_policy'' (str_validator L) = Invalid e"
      by (simp add: r_def)
    with scalar_errors_nonempty(1)
    have "e \<noteq> [] \<and> (\<forall>x \<in> set e. \<exists>rest. fst x = Key ''retention_policy'' # rest)"
      by (rule optional_field_Invalid)
    then show ?thesis by (auto simp: P_def)
  qed
  have pp: "e \<noteq> [] \<and> (\<forall>x \<in> set e. P x)" if "p = Invalid e" for e
  proof -
    from that have "default_field kvs ''port'' 8086 (int_validator L) = Invalid e"
      by (simp add: p_def)
    with scalar_errors_nonempty(2)
    have "e \<noteq> [] \<and> (\<forall>x \<in> set e. \<exists>rest. fst x = Key ''port'' # rest)"
      by (rule default_field_Invalid)
    then show ?thesis by (auto simp: P_def)
  qed
  have dd: "e \<noteq> [] \<and> (\<forall>x \<in> set e. P x)" if "d = Invalid e" for e
  proof -
    from that have "default_field kvs ''database'' ''energy'' (str_validator L) = Invalid e"
      by (simp add: d_def)
    with scalar_errors_nonempty(1)
    have "e \<noteq> [] \<and> (\<forall>x \<in> set e. \<exists>rest. fst x = Key ''database'' # rest)"
      by (rule default_field_Invalid)
    then show ?thesis by (auto simp: P_def)
  qed
  have pd: "e \<noteq> [] \<and> (\<forall>x \<in> set e. P x)" if "both p d = Invalid e" for e
    using that pp dd by (rule both_Invalid)
  have rpd: "e \<noteq> [] \<and> (\<forall>x \<in> set e. P x)" if "both r (both p d) = Invalid e" for e
    using that rr pd by (rule both_Invalid)
  have "both h (both r (both p d)) = Invalid es"
    using assms by (simp add: InfluxDBConfig_init_def Let_def h_def r_def p_def d_def)
  then have "es \<noteq> [] \<and> (\<forall>x \<in> set es. P x)"
    using hh rpd by (rule both_Invalid)
  then show ?thesis
    by (simp add: P_def)
qed

lemma InfluxDBConfig_keeps_errors:
  assumes "required_field kvs ''host'' (str_validator L) = Invalid e \<or>
           optional_field kvs ''retention_policy'' (str_validator L) = Invalid e \<or>
           default_field kvs ''port'' 8086 (int_validator L) = Invalid e \<or>
           default_field kvs ''database'' ''energy'' (str_validator L) = Invalid e"
  shows "\<exists>es. InfluxDBConfig_init L kvs = Invalid es \<and> set e \<subseteq> set es"
proof -
  define h where "h = required_field kvs ''host'' (str_validator L)"
  define r where "r = optional_field kvs ''retention_policy'' (str_validator L)"
  define p where "p = default_field kvs ''port'' 8086 (int_validator L)"
  define d where "d = default_field kvs ''database'' ''energy'' (str_validator L)"
  have no: "h \<noteq> Overflow" "r \<noteq> Overflow" "p \<noteq> Overflow" "d \<noteq> Overflow"
    by (simp_all add: h_def r_def p_def d_def config_fields_never_overflow)
  then have no2: "both p d \<noteq> Overflow" "both r (both p d) \<noteq> Overflow"
    by simp_all
  from assms have "h = Invalid e \<or> r = Invalid e \<or> p = Invalid e \<or> d = Invalid e"
    by (simp add: h_def r_def p_def d_def)
  then have "\<exists>es. both h (both r (both p d)) = Invalid es \<and> set e \<subseteq> set es"
  proof (elim disjE)
    assume "h = Invalid e"
    then show ?thesis using no2(2) by (rule both_keeps_left)
  next
    assume "r = Invalid e"
    then obtain e1 where "both r (both p d) = Invalid e1" and "set e \<subseteq> set e1"
      using no2(1) both_keeps_left by blast
    then show ?thesis using both_keeps_right [of "both r (both p d)" e1 h] no(1) by blast
  next
    assume "p = Invalid e"
    then obtain e1 where "both p d = Invalid e1" and "set e \<subseteq> set e1"
      using no(4) both_keeps_left by blast
    then obtain e2 where "both r (both p d) = Invalid e2" and "set e \<subseteq> set e2"
      using both_keeps_right [of "both p d" e1 r] no(2) by blast
    then show ?thesis using both_keeps_right [of "both r (both p d)" e2 h] no(1) by blast
  next
    assume "d = Invalid e"
    then obtain e1 where "both p d = Invalid e1" and "set e \<subseteq> set e1"
      using both_keeps_right [of d e p] no(3) by blast
    then obtain e2 where "both r (both p d) = Invalid e2" and "set e \<subseteq> set e2"
      using both_keeps_right [of "both p d" e1 r] no(2) by blast
    then show ?thesis using both_keeps_right [of "both r (both p d)" e2 h] no(1) by blast
  qed
  then show ?thesis
    by (simp add: InfluxDBConfig_init_def Let_def h_def r_def p_def d_def)
qed

text \<open>A value that a field refuses gives an error at the path of the field.\<close>

lemma refused_field:
  assumes "map_of kvs n = Some v" and "v = PNone \<or> is_Invalid (val v)"
    and "\<And>es. val v = Invalid es \<Longrightarrow> \<exists>k. es = [([], k)]"
  shows "\<exists>k. required_field kvs n val = Invalid [([Key n], k)]"
    and "\<exists>k. default_field kvs n d val = Invalid [([Key n], k)]"
proof -
  have "\<exists>k. (if v = PNone then Invalid [([Key n], NoneNotAllowed)] else at_loc (Key n) (val v))
            = Invalid [([Key n], k)]"
  proof (cases "v = PNone")
    case True
    then show ?thesis by simp
  next
    case False
    with assms(2) obtain es where "val v = Invalid es"
      by (cases "val v") simp_all
    with assms(3) obtain k where "val v = Invalid [([], k)]"
      by blast
    with False show ?thesis
      by (simp add: at_loc_def)
  qed
  with assms(1) show "\<exists>k. required_field kvs n val = Invalid [([Key n], k)]"
    and "\<exists>k. default_field kvs n d val = Invalid [([Key n], k)]"
    by (simp_all add: required_field_def default_field_def)
qed

lemma refused_optional_field:
  assumes "map_of kvs n = Some v" and "v \<noteq> PNone" and "is_Invalid (val v)"
    and "\<And>es. val v = Invalid es \<Longrightarrow> \<exists>k. es = [([], k)]"
  shows "\<exists>k. optional_field kvs n val = Invalid [([Key n], k)]"
proof -
  from assms(3) obtain es where "val v = Invalid es"
    by (cases "val v") simp_all
  with assms(4) obtain k where "val v = Invalid [([], k)]"
    by blast
  with assms(1,2) show ?thesis
    by (simp add: optional_field_def at_loc_def map_valid_def)
qed

lemma InfluxDBConfig_refuses:
  assumes "map_of kvs ''host'' = Some v \<and> (v = PNone \<or> is_Invalid (str_validator L v)) \<and>
             f = ''host'' \<or>
           map_of kvs ''retention_policy'' = Some v \<and> v \<noteq> PNone \<and>
             is_Invalid (str_validator L v) \<and> f = ''retention_policy'' \<or>
           map_of kvs ''port'' = Some v \<and> (v = PNone \<or> is_Invalid (int_validator L v)) \<and>
             f = ''port'' \<or>
           map_of kvs ''database'' = Some v \<and> (v = PNone \<or> is_Invalid (str_validator L v)) \<and>
             f = ''database''"
  shows "\<exists>es k. InfluxDBConfig_init L kvs = Invalid es \<and> ([Key f], k) \<in> set es"
proof -
  from assms have "\<exists>k.
      required_field kvs ''host'' (str_validator L) = Invalid [([Key f], k)] \<or>
      optional_field kvs ''retention_policy'' (str_validator L) = Invalid [([Key f], k)] \<or>
      default_field kvs ''port'' 8086 (int_validator L) = Invalid [([Key f], k)] \<or>
      default_field kvs ''database'' ''energy'' (str_validator L) = Invalid [([Key f], k)]"
    using refused_field(1) [of kvs "''host''" v "str_validator L"]
      refused_optional_field [of kvs "''retention_policy''" v "str_validator L"]
      refused_field(2) [of kvs "''port''" v "int_validator L" 8086]
      refused_field(2) [of kvs "''database''" v "str_validator L" "''energy''"]
      scalar_single_error(1) [of L v] scalar_single_error(2) [of L v]
    by blast
  then obtain k where "
      required_field kvs ''host'' (str_validator L) = Invalid [([Key f], k)] \<or>
      optional_field kvs ''retention_policy'' (str_validator L) = Invalid [([Key f], k)] \<or>
      default_field kvs ''port'' 8086 (int_validator L) = Invalid [([Key f], k)] \<or>
      default_field kvs ''database'' ''energy'' (str_validator L) = Invalid [([Key f], k)]"
    by blast
  from InfluxDBConfig_keeps_errors [OF this] show ?thesis
    by auto
qed

subsection \<open>The example inputs, evaluated\<close>

lemma example_start_parsed:
  "parse_datetime_str ''2024-01-01T00:00:00Z'' = Some (Some example_start)"
  by (simp add: parse_datetime_str_def match_datetime_def digits_def is_digit_def
      int_of_digits_def digit_val_def expect_def match_seconds_def match_tz_def at_end_def
      parse_timezone_def valid_datetime_def days_in_month_def is_leap_def example_start_def)

lemma example_start_rendered: "isoformat example_start = ''2024-01-01T00:00:00+00:00''"
  by (simp add: isoformat_def zpad_def format_offset_def decimal.simps example_start_def)

lemma example_entry_parsed:
  "model_validator L (HourlyPrice_init L) example_entry
     = Valid \<lparr>start = example_start, value = Finite 10\<rparr>"
  by (simp add: example_entry_def model_validator_def as_dict_def HourlyPrice_init_def
      required_field_def datetime_validator_def float_validator_def example_start_parsed
      at_loc_def both_def map_valid_def)

lemma example_entry_not_none: "example_entry \<noteq> PNone"
  by (simp add: example_entry_def)

lemma areas_response_parsed: "AreaPrices_parse_obj L areas_response = Valid example_prices"
  by (simp add: areas_response_def area_keyed_response_def example_prices_def
      AreaPrices_parse_obj_def AreaPrices_init_def AreaValues_init_def as_dict_def
      required_field_def dict_validator_def model_validator_def
      list_validator_def not_none_def example_entry_not_none both_def map_valid_def
      example_entry_parsed [unfolded model_validator_def as_dict_def] at_loc_def)

lemma area_keyed_response_rejected:
  "AreaPrices_parse_obj L area_keyed_response = Invalid [([Key ''areas''], Missing)]"
  by (simp add: area_keyed_response_def AreaPrices_parse_obj_def AreaPrices_init_def as_dict_def
      required_field_def map_valid_def)

lemma example_body: "json_body example_prices = [example_point]"
  by (simp add: json_body_def example_prices_def point_def example_point_def
      example_start_rendered convert_10)

lemma collect_data_areas_response:
  "collect_data L (answering areas_response) nc cl ic dry =
     (Inr (),
      [SessionCreated, Fetch (currency nc) 15 (NordpoolConfig.areas nc), DebugPrices example_prices,
       if dry then DebugDryRun [example_point]
       else WritePoints cl [example_point] (retention_policy ic),
       SessionClosed])"
  by (simp add: collect_data_def answering_def areas_response_parsed example_body)

lemma example_config_checked:
  "CheckerConfig_init L [(''influxdb'', PDict [(''host'', PStr ''localhost'')]),
            (''nordpool'', PDict [(''areas'', PList [PStr ''SE1'']), (''currency'', PStr ''EUR'')])]
     = Valid \<lparr>influxdb = example_target, nordpool = example_query\<rparr>"
  by (simp add: CheckerConfig_init_def InfluxDBConfig_init_def NordpoolConfig_init_def
      required_field_def default_field_def optional_field_def model_validator_def as_dict_def
      list_validator_def not_none_def str_validator_def at_loc_def both_def map_valid_def
      example_target_def example_query_def)

lemma empty_areas_config_checked:
  "CheckerConfig_init L [(''influxdb'', PDict [(''host'', PStr ''localhost'')]),
            (''nordpool'', PDict [(''areas'', PList []), (''currency'', PStr ''EUR'')])]
     = Valid \<lparr>influxdb = example_target,
              nordpool = \<lparr>NordpoolConfig.areas = [], currency = ''EUR''\<rparr>\<rparr>"
  by (simp add: CheckerConfig_init_def InfluxDBConfig_init_def NordpoolConfig_init_def
      required_field_def default_field_def optional_field_def model_validator_def as_dict_def
      list_validator_def not_none_def str_validator_def at_loc_def both_def map_valid_def
      example_target_def)

lemma float_of_huge_int: "float_of_int huge_int = None"
proof -
  have "round64 (of_int (10 ^ 400)) = Infinite (real_of_int (10 ^ 400) < 0)"
    by (rule round64_eval_overflow [where e = 1328 and m = 7686445155841023])
      (simp_all add: round_eval)
  then show ?thesis
    by (simp add: float_of_int_def huge_int_def)
qed

lemma huge_value_response_raises: "AreaPrices_parse_obj L huge_value_response = Overflow"
  by (simp add: huge_value_response_def AreaPrices_parse_obj_def AreaPrices_init_def
      AreaValues_init_def HourlyPrice_init_def as_dict_def required_field_def
      dict_validator_def model_validator_def list_validator_def not_none_def both_def
      map_valid_def float_validator_def float_of_huge_int at_loc_def)

subsection \<open>The session at the end of \<open>collect_data\<close>\<close>

text \<open>
  The session is closed by the last statement of \<open>collect_data\<close> only, so it is
  still open exactly when \<open>collect_data\<close> raises.
\<close>

lemma session_open_iff_raises:
  "session_open (snd (collect_data L w nc cl ic dry)) = isl (fst (collect_data L w nc cl ic dry))"
  by (simp add: collect_data_def session_open_def Let_def
      split: sum.splits option.splits outcome.splits)

section \<open>The claims\<close>

text \<open>
  C1. For every configuration and every answer of the provider, the records that a
  dry run logs are exactly, and in the same order, the records that a run without
  dry-run hands to the write call of the database; a dry run calls the write not at
  all. This holds for \<open>collect_data\<close> and for \<open>run\<close>, whatever the provider and the
  database answer.
\<close>

theorem dry_run_logs_what_would_be_written:
  "dry_run_batches (snd (collect_data L w nc cl ic True))
     = written_batches (snd (collect_data L w nc cl ic False)) \<and>
   written_batches (snd (collect_data L w nc cl ic True)) = [] \<and>
   dry_run_batches (snd (run L w config True)) = written_batches (snd (run L w config False)) \<and>
   written_batches (snd (run L w config True)) = []"
  by (simp add: run_def collect_data_def dry_run_batches_def written_batches_def Let_def
      split: sum.splits option.splits pyval.splits outcome.splits)

theorem dry_run_logs_what_would_be_written_witness:
  "dry_run_batches
     (snd (collect_data strict (answering areas_response) example_query example_client
             example_target True)) = [[example_point]] \<and>
   written_batches
     (snd (collect_data strict (answering areas_response) example_query example_client
             example_target False)) = [[example_point]]"
  using dry_run_logs_what_would_be_written
    [of strict "answering areas_response" example_query example_client example_target]
  by (simp add: collect_data_areas_response dry_run_batches_def written_batches_def)

text \<open>
  C2, as the code has it. The transform evaluates \<^verbatim>\<open>(1.24 * price * 100) / 1000\<close> in
  the arithmetic of Python floats, which rounds after each of the three operations.
  It has no error case and gives a float for every float. For a finite price \<open>x\<close>
  with \<open>2 powi (- 1000) \<le> \<bar>x\<bar> \<le> 2 ^ 1000\<close> the result is finite and is the value
  of \<open>1.24 * x / 10\<close> up to a relative error of \<open>2 powi (- 50)\<close>; it need not be the
  float nearest to that value. Zero is mapped to zero, the negative of a price to the
  negative of its result, an infinity and NaN to themselves; \<^verbatim>\<open>10.0\<close> is mapped to
  the float \<^verbatim>\<open>1.24\<close> and \<^verbatim>\<open>-5.0\<close> to the float \<^verbatim>\<open>-0.62\<close>.
\<close>

theorem transform_is_rounded_formula:
  "(2 powi (- 1000) \<le> \<bar>x\<bar> \<and> \<bar>x\<bar> \<le> 2 ^ 1000 \<longrightarrow>
      (\<exists>y. convert_price_to_cents_with_vat24 (Finite x) = Finite y \<and>
            \<bar>y - 1.24 * x / 10\<bar> \<le> 2 powi (- 50) * \<bar>1.24 * x / 10\<bar>)) \<and>
   convert_price_to_cents_with_vat24 (fneg price)
     = fneg (convert_price_to_cents_with_vat24 price) \<and>
   convert_price_to_cents_with_vat24 (Finite 0) = Finite 0 \<and>
   convert_price_to_cents_with_vat24 (Finite (- 5)) = round64 (- 0.62) \<and>
   convert_price_to_cents_with_vat24 (Finite 10) = round64 1.24 \<and>
   convert_price_to_cents_with_vat24 NaN = NaN \<and>
   convert_price_to_cents_with_vat24 (Infinite n) = Infinite n"
  using convert_accuracy [of x] convert_fneg [of price] convert_0 convert_minus_5 convert_10
    convert_special(1) convert_special(2) [of n]
  by blast

theorem transform_is_rounded_formula_witness:
  "convert_price_to_cents_with_vat24 (Finite 15) = Finite (2094173826727281 / 2 ^ 50) \<and>
   \<bar>2094173826727281 / 2 ^ 50 - 1.24 * 15 / 10\<bar> \<le> 2 powi (- 50) * \<bar>1.24 * 15 / (10::real)\<bar>"
proof -
  have "\<exists>y. convert_price_to_cents_with_vat24 (Finite 15) = Finite y \<and>
            \<bar>y - 1.24 * 15 / 10\<bar> \<le> 2 powi (- 50) * \<bar>1.24 * 15 / 10\<bar>"
    by (rule transform_is_rounded_formula [THEN conjunct1, THEN mp])
      (simp add: power_int_minus)
  then obtain y where "convert_price_to_cents_with_vat24 (Finite 15) = Finite y"
    and "\<bar>y - 1.24 * 15 / 10\<bar> \<le> 2 powi (- 50) * \<bar>1.24 * 15 / 10\<bar>"
    by blast
  then show ?thesis
    by (simp only: convert_15 pyfloat.inject simp_thms)
qed

text \<open>
  The claim C2 as stated fails: the transform is not the function \<open>1.24 * x / 10\<close> of
  real numbers. For the price \<^verbatim>\<open>15.0\<close> it gives \<^verbatim>\<open>1.8600000000000003\<close>, which is
  neither \<open>1.86\<close> nor the float nearest to it nor what \<^verbatim>\<open>1.24 * 15.0 / 10\<close> gives, and
  for the price \<open>2 ^ 1020\<close> the product with 100 overflows, so that the result is
  infinite.
\<close>

theorem transform_is_not_the_real_formula:
  "convert_price_to_cents_with_vat24 (Finite 15) = Finite (2094173826727281 / 2 ^ 50) \<and>
   (2094173826727281 / 2 ^ 50 :: real) \<noteq> 1.24 * 15 / 10 \<and>
   convert_price_to_cents_with_vat24 (Finite 15) \<noteq> round64 1.86 \<and>
   convert_price_to_cents_with_vat24 (Finite 15)
     \<noteq> fdiv (fmul (round64 1.24) (Finite 15)) 10 \<and>
   convert_price_to_cents_with_vat24 (Finite (2 ^ 1020)) = Infinite False"
  unfolding convert_15 short_formula_15 float_1_86 convert_overflows by simp

text \<open>
  C3. For every validated set of area prices, the record builder emits one point per
  hourly price: the areas in their order, the hourly prices of an area in their order.
  A point has the measurement \<^verbatim>\<open>nordpool_price\<close>, the tag \<^verbatim>\<open>area\<close> with the area code,
  the start of the hourly price in ISO 8601 as its time, and the field \<^verbatim>\<open>price\<close> with
  the transformed value. The number of points is the number of hourly prices of all
  areas together.
\<close>

theorem record_builder_one_point_per_price:
  "json_body ap = concat (map (\<lambda>item. map (point (fst item)) (values (snd item))) (areas ap)) \<and>
   length (json_body ap) = sum_list (map (\<lambda>item. length (values (snd item))) (areas ap)) \<and>
   measurement (point a d) = ''nordpool_price'' \<and>
   tags (point a d) = [(''area'', a)] \<and>
   time (point a d) = isoformat (start d) \<and>
   fields' (point a d) = [(''price'', convert_price_to_cents_with_vat24 (value d))]"
proof -
  have "length (concat (map (\<lambda>item. map (point (fst item)) (values (snd item))) xs))
          = sum_list (map (\<lambda>item. length (values (snd item))) xs)"
    for xs :: "(string \<times> AreaValues) list"
    by (induction xs) simp_all
  then show ?thesis
    by (simp add: json_body_concat point_def)
qed

theorem record_builder_one_point_per_price_witness:
  "json_body example_prices = [point ''SE1'' \<lparr>start = example_start, value = Finite 10\<rparr>] \<and>
   length (json_body example_prices) = 1 \<and>
   time (point ''SE1'' \<lparr>start = example_start, value = Finite 10\<rparr>) = ''2024-01-01T00:00:00+00:00''"
  using record_builder_one_point_per_price
    [of example_prices "''SE1''" "\<lparr>start = example_start, value = Finite 10\<rparr>"]
  by (simp add: example_prices_def example_start_rendered)

text \<open>
  C4, as the code has it. The model \<^verbatim>\<open>AreaPrices\<close> has the single field \<^verbatim>\<open>areas\<close>, so
  the mapping from area codes to values is read from under the key \<^verbatim>\<open>areas\<close> of the
  response. For the response
  \<^verbatim>\<open>{"areas": {"SE1": {"values": [{"start": "2024-01-01T00:00:00Z", "value": 10.0}]}}}\<close>
  parsing succeeds, and the pipeline run with the configuration of areas \<^verbatim>\<open>[SE1]\<close> and
  currency \<^verbatim>\<open>EUR\<close> produces exactly one point: measurement \<^verbatim>\<open>nordpool_price\<close>, tag
  area \<^verbatim>\<open>SE1\<close>, time \<^verbatim>\<open>2024-01-01T00:00:00+00:00\<close>, field price \<^verbatim>\<open>1.24\<close>, the float nearest to \<open>1.24\<close>.
\<close>

theorem response_under_areas_key_gives_one_point:
  "AreaPrices_parse_obj L areas_response = Valid example_prices \<and>
   json_body example_prices
     = [\<lparr>measurement = ''nordpool_price'', tags = [(''area'', ''SE1'')],
         time = ''2024-01-01T00:00:00+00:00'', fields' = [(''price'', round64 1.24)]\<rparr>] \<and>
   dry_run_batches (snd (run L (answering areas_response) example_config True))
     = [json_body example_prices] \<and>
   written_batches (snd (run L (answering areas_response) example_config False))
     = [json_body example_prices]"
  by (simp add: areas_response_parsed example_body example_point_def run_def example_config_def
      example_config_checked collect_data_areas_response dry_run_batches_def written_batches_def)

theorem response_under_areas_key_gives_one_point_witness:
  "AreaPrices_parse_obj strict areas_response = Valid example_prices \<and>
   dry_run_batches (snd (run strict (answering areas_response) example_config True))
     = [[example_point]]"
  using response_under_areas_key_gives_one_point [of strict]
  by (simp add: example_point_def)

text \<open>
  The response of C4 as the claim writes it, with the area codes at the top level, is
  rejected: the field \<^verbatim>\<open>areas\<close> is missing, \<open>collect_data\<close> raises the validation error
  after the fetch, and no point is produced.
\<close>

theorem area_keyed_top_level_is_rejected:
  "AreaPrices_parse_obj strict area_keyed_response = Invalid [([Key ''areas''], Missing)] \<and>
   run strict (answering area_keyed_response) example_config True
     = (Inl (ValidationError [([Key ''areas''], Missing)]),
        [SessionCreated, Fetch ''EUR'' 15 [''SE1'']])"
  by (simp add: run_def example_config_def example_config_checked collect_data_def
      answering_def area_keyed_response_rejected example_query_def)

text \<open>
  C5, as the code has it. \<^verbatim>\<open>NordpoolConfig\<close> declares \<^verbatim>\<open>areas: list[str]\<close> with no
  constraint on the length: an empty list of areas passes validation and gives a
  configuration with no area. A configuration in which \<^verbatim>\<open>areas\<close> is missing fails with
  a validation error that names the field, and whenever the validation of the
  configuration fails, \<open>run\<close> raises that error before anything else happens: no session
  is created, nothing is fetched, nothing is written. The validation of a
  configuration ends in no other exception than the validation error.
\<close>

theorem config_failure_precedes_network:
  "(map_of nk ''areas'' = Some (PList []) \<and> map_of nk ''currency'' = Some (PStr c) \<longrightarrow>
      NordpoolConfig_init L nk = Valid \<lparr>NordpoolConfig.areas = [], currency = c\<rparr>) \<and>
   (map_of nk ''areas'' = None \<longrightarrow>
      (\<exists>es. NordpoolConfig_init L nk = Invalid (([Key ''areas''], Missing) # es))) \<and>
   (CheckerConfig_init L kvs = Invalid es \<longrightarrow>
      run L w (PDict kvs) dry = (Inl (ValidationError es), [])) \<and>
   CheckerConfig_init L kvs \<noteq> Overflow"
proof -
  have accepted: "NordpoolConfig_init L nk = Valid \<lparr>NordpoolConfig.areas = [], currency = c\<rparr>"
    if "map_of nk ''areas'' = Some (PList [])" "map_of nk ''currency'' = Some (PStr c)"
    using that
    by (simp add: NordpoolConfig_init_def required_field_def list_validator_def not_none_def
        str_validator_def at_loc_def both_def map_valid_def)
  have missing: "\<exists>es. NordpoolConfig_init L nk = Invalid (([Key ''areas''], Missing) # es)"
    if "map_of nk ''areas'' = None"
  proof -
    define r where "r = required_field nk ''currency'' (str_validator L)"
    have "r \<noteq> Overflow"
      unfolding r_def by (rule config_fields_never_overflow)
    moreover have "NordpoolConfig_init L nk
        = map_valid (\<lambda>(a', c'). \<lparr>NordpoolConfig.areas = a', currency = c'\<rparr>)
            (both (Invalid [([Key ''areas''], Missing)]) r)"
      using that
      by (simp add: NordpoolConfig_init_def r_def required_field_def [of nk "''areas''"])
    ultimately show ?thesis
      by (cases r) (simp_all add: both_def map_valid_def)
  qed
  have raised: "run L w (PDict kvs) dry = (Inl (ValidationError es), [])"
    if "CheckerConfig_init L kvs = Invalid es"
    using that by (simp add: run_def)
  from accepted missing raised show ?thesis
    using CheckerConfig_never_overflows [of L kvs] by blast
qed

theorem config_failure_precedes_network_witness:
  "NordpoolConfig_init strict [(''areas'', PList []), (''currency'', PStr ''EUR'')]
     = Valid \<lparr>NordpoolConfig.areas = [], currency = ''EUR''\<rparr> \<and>
   (\<exists>es. NordpoolConfig_init strict [(''currency'', PStr ''EUR'')]
            = Invalid (([Key ''areas''], Missing) # es)) \<and>
   run strict unreachable missing_areas_config False
     = (Inl (ValidationError [([Key ''nordpool'', Key ''areas''], Missing)]), [])"
proof -
  have "CheckerConfig_init strict
          [(''influxdb'', PDict [(''host'', PStr ''localhost'')]),
           (''nordpool'', PDict [(''currency'', PStr ''EUR'')])]
        = Invalid [([Key ''nordpool'', Key ''areas''], Missing)]"
    by (simp add: CheckerConfig_init_def InfluxDBConfig_init_def NordpoolConfig_init_def
        required_field_def default_field_def optional_field_def model_validator_def as_dict_def
        str_validator_def at_loc_def both_def map_valid_def)
  then show ?thesis
    using config_failure_precedes_network
        [of "[(''areas'', PList []), (''currency'', PStr ''EUR'')]" "''EUR''" strict]
      config_failure_precedes_network [of "[(''currency'', PStr ''EUR'')]" _ strict]
      config_failure_precedes_network
        [of _ _ strict "[(''influxdb'', PDict [(''host'', PStr ''localhost'')]),
           (''nordpool'', PDict [(''currency'', PStr ''EUR'')])]"
           "[([Key ''nordpool'', Key ''areas''], Missing)]" unreachable False]
    by (simp add: missing_areas_config_def)
qed

text \<open>
  The claim C5 as stated fails: with an empty list of areas the configuration is
  accepted, and the run goes on to query the provider for no area (here a provider
  that cannot be reached, so that the query is the last thing that happens).
\<close>

theorem empty_areas_list_is_accepted:
  "CheckerConfig_init strict
     [(''influxdb'', PDict [(''host'', PStr ''localhost'')]),
      (''nordpool'', PDict [(''areas'', PList []), (''currency'', PStr ''EUR'')])]
     = Valid \<lparr>influxdb = example_target,
            nordpool = \<lparr>NordpoolConfig.areas = [], currency = ''EUR''\<rparr>\<rparr> \<and>
   run strict unreachable empty_areas_config True
     = (Inl (ProviderError ''timeout''), [SessionCreated, Fetch ''EUR'' 15 []])"
  by (simp add: run_def empty_areas_config_def empty_areas_config_checked collect_data_def
      unreachable_def)

text \<open>
  C6, as the code has it. \<^verbatim>\<open>InfluxDBConfig\<close> checks that \<^verbatim>\<open>host\<close> is present and that
  the value given for a field is accepted by the validator of the field's type (a
  string for \<^verbatim>\<open>host\<close>, \<^verbatim>\<open>database\<close> and \<^verbatim>\<open>retention_policy\<close>, an integer for \<^verbatim>\<open>port\<close>),
  nothing more. A validator accepts a value of its type as it is and whatever
  pydantic converts to the type (the port \<^verbatim>\<open>"8086"\<close> becomes 8086). When \<^verbatim>\<open>host\<close> is
  given and accepted, and each of the other fields is absent or accepted (for
  \<^verbatim>\<open>retention_policy\<close> also null), the construction succeeds: the port is what the
  validator returns, whatever its range, or 8086 when absent; the database is what
  the validator returns, whatever its length, or \<^verbatim>\<open>energy\<close> when absent. The
  construction fails with a validation error that names the field when \<^verbatim>\<open>host\<close> is
  missing, when \<^verbatim>\<open>host\<close>, \<^verbatim>\<open>port\<close> or \<^verbatim>\<open>database\<close> is null, and when the value of any
  of the four fields is refused by the field's validator. Every error of a failed
  construction names one of the four fields, and the construction ends in no other
  exception.
\<close>

theorem influx_config_checks_presence_and_type:
  "(map_of kvs ''host'' = Some vh \<and> vh \<noteq> PNone \<and> str_validator L vh = Valid h \<and>
    (map_of kvs ''port'' = None \<and> p = 8086 \<or>
     (\<exists>vp. map_of kvs ''port'' = Some vp \<and> vp \<noteq> PNone \<and> int_validator L vp = Valid p)) \<and>
    (map_of kvs ''database'' = None \<and> d = ''energy'' \<or>
     (\<exists>vd. map_of kvs ''database'' = Some vd \<and> vd \<noteq> PNone \<and>
           str_validator L vd = Valid d)) \<and>
    ((map_of kvs ''retention_policy'' = None \<or> map_of kvs ''retention_policy'' = Some PNone) \<and>
       r = None \<or>
     (\<exists>vr r'. map_of kvs ''retention_policy'' = Some vr \<and> vr \<noteq> PNone \<and>
              str_validator L vr = Valid r' \<and> r = Some r')) \<longrightarrow>
      InfluxDBConfig_init L kvs
        = Valid \<lparr>host = h, port = p, database = d, retention_policy = r\<rparr>) \<and>
   str_validator L (PStr s) = Valid s \<and> int_validator L (PInt i) = Valid i \<and>
   (map_of kvs ''host'' = None \<longrightarrow>
      (\<exists>es. InfluxDBConfig_init L kvs = Invalid (([Key ''host''], Missing) # es))) \<and>
   (InfluxDBConfig_init L kvs = Invalid es \<longrightarrow>
      es \<noteq> [] \<and>
      (\<forall>e \<in> set es. \<exists>f \<in> set [''host'', ''retention_policy'', ''port'', ''database''].
                       \<exists>rest. fst e = Key f # rest)) \<and>
   (map_of kvs ''host'' = Some v \<and> (v = PNone \<or> is_Invalid (str_validator L v)) \<longrightarrow>
      (\<exists>es k. InfluxDBConfig_init L kvs = Invalid es \<and> ([Key ''host''], k) \<in> set es)) \<and>
   (map_of kvs ''retention_policy'' = Some v \<and> v \<noteq> PNone \<and> is_Invalid (str_validator L v) \<longrightarrow>
      (\<exists>es k. InfluxDBConfig_init L kvs = Invalid es \<and>
              ([Key ''retention_policy''], k) \<in> set es)) \<and>
   (map_of kvs ''port'' = Some v \<and> (v = PNone \<or> is_Invalid (int_validator L v)) \<longrightarrow>
      (\<exists>es k. InfluxDBConfig_init L kvs = Invalid es \<and> ([Key ''port''], k) \<in> set es)) \<and>
   (map_of kvs ''database'' = Some v \<and> (v = PNone \<or> is_Invalid (str_validator L v)) \<longrightarrow>
      (\<exists>es k. InfluxDBConfig_init L kvs = Invalid es \<and> ([Key ''database''], k) \<in> set es)) \<and>
   InfluxDBConfig_init L kvs \<noteq> Overflow"
proof -
  have accepted: "InfluxDBConfig_init L kvs
          = Valid \<lparr>host = h, port = p, database = d, retention_policy = r\<rparr>"
    if hst: "map_of kvs ''host'' = Some vh" "vh \<noteq> PNone" "str_validator L vh = Valid h"
      and prt: "map_of kvs ''port'' = None \<and> p = 8086 \<or>
        (\<exists>vp. map_of kvs ''port'' = Some vp \<and> vp \<noteq> PNone \<and> int_validator L vp = Valid p)"
      and dbs: "map_of kvs ''database'' = None \<and> d = ''energy'' \<or>
        (\<exists>vd. map_of kvs ''database'' = Some vd \<and> vd \<noteq> PNone \<and>
              str_validator L vd = Valid d)"
      and pol: "(map_of kvs ''retention_policy'' = None \<or>
          map_of kvs ''retention_policy'' = Some PNone) \<and> r = None \<or>
        (\<exists>vr r'. map_of kvs ''retention_policy'' = Some vr \<and> vr \<noteq> PNone \<and>
                 str_validator L vr = Valid r' \<and> r = Some r')"
  proof -
    from hst have "required_field kvs ''host'' (str_validator L) = Valid h"
      by (simp add: required_field_def at_loc_def)
    moreover from prt have "default_field kvs ''port'' 8086 (int_validator L) = Valid p"
      by (auto simp: default_field_def at_loc_def)
    moreover from dbs have "default_field kvs ''database'' ''energy'' (str_validator L) = Valid d"
      by (auto simp: default_field_def at_loc_def)
    moreover from pol have "optional_field kvs ''retention_policy'' (str_validator L) = Valid r"
      by (auto simp: optional_field_def at_loc_def map_valid_def)
    ultimately show ?thesis
      by (simp add: InfluxDBConfig_init_def both_def map_valid_def)
  qed
  have own: "str_validator L (PStr s) = Valid s" "int_validator L (PInt i) = Valid i"
    by (simp_all add: str_validator_def int_validator_def)
  have missing: "\<exists>es. InfluxDBConfig_init L kvs = Invalid (([Key ''host''], Missing) # es)"
    if "map_of kvs ''host'' = None"
  proof -
    define r where "r = both (optional_field kvs ''retention_policy'' (str_validator L))
      (both (default_field kvs ''port'' 8086 (int_validator L))
         (default_field kvs ''database'' ''energy'' (str_validator L)))"
    have "r \<noteq> Overflow"
      unfolding r_def by (simp add: config_fields_never_overflow)
    moreover have "InfluxDBConfig_init L kvs
        = map_valid
            (\<lambda>(h', r', p', d'). \<lparr>host = h', port = p', database = d', retention_policy = r'\<rparr>)
            (both (Invalid [([Key ''host''], Missing)]) r)"
      using that
      by (simp add: InfluxDBConfig_init_def r_def required_field_def [of kvs "''host''"])
    ultimately show ?thesis
      by (cases r) (simp_all add: both_def map_valid_def)
  qed
  note named = InfluxDBConfig_errors [of L kvs es]
  note h = InfluxDBConfig_refuses [of kvs v L "''host''"]
  note r = InfluxDBConfig_refuses [of kvs v L "''retention_policy''"]
  note p = InfluxDBConfig_refuses [of kvs v L "''port''"]
  note d = InfluxDBConfig_refuses [of kvs v L "''database''"]
  note total = InfluxDBConfig_never_overflows [of L kvs]
  show ?thesis
    apply (intro conjI impI)
    subgoal by (rule accepted) blast+
    subgoal by (rule own)
    subgoal by (rule own)
    subgoal by (rule missing)
    subgoal using named by blast
    subgoal using named by blast
    subgoal using h by blast
    subgoal using r by blast
    subgoal using p by blast
    subgoal using d by blast
    subgoal by (rule total)
    done
qed

theorem influx_config_checks_presence_and_type_witness:
  "InfluxDBConfig_init strict
     [(''host'', PStr ''localhost''), (''port'', PInt 70000), (''database'', PStr [])]
     = Valid \<lparr>host = ''localhost'', port = 70000, database = [], retention_policy = None\<rparr> \<and>
   InfluxDBConfig_init
     (strict\<lparr>to_int := (\<lambda>v. if v = PStr ''8086'' then Some 8086 else None)\<rparr>)
     [(''host'', PStr ''localhost''), (''port'', PStr ''8086''), (''database'', PStr ''energy'')]
     = Valid \<lparr>host = ''localhost'', port = 8086, database = ''energy'',
              retention_policy = None\<rparr> \<and>
   InfluxDBConfig_init strict [(''host'', PStr ''localhost'')]
     = Valid \<lparr>host = ''localhost'', port = 8086, database = ''energy'',
              retention_policy = None\<rparr> \<and>
   InfluxDBConfig_init strict
     [(''host'', PStr ''localhost''), (''retention_policy'', PStr ''weekly'')]
     = Valid \<lparr>host = ''localhost'', port = 8086, database = ''energy'',
              retention_policy = Some ''weekly''\<rparr> \<and>
   InfluxDBConfig_init strict [(''port'', PStr ''http'')]
     = Invalid [([Key ''host''], Missing), ([Key ''port''], IntegerError)] \<and>
   (\<exists>es k. InfluxDBConfig_init strict [(''host'', PInt 123)] = Invalid es \<and>
           ([Key ''host''], k) \<in> set es) \<and>
   (\<exists>es k. InfluxDBConfig_init strict
             [(''host'', PStr ''localhost''), (''retention_policy'', PInt 7)] = Invalid es \<and>
           ([Key ''retention_policy''], k) \<in> set es) \<and>
   (\<exists>es k. InfluxDBConfig_init strict
             [(''host'', PStr ''localhost''), (''port'', PStr ''http'')] = Invalid es \<and>
           ([Key ''port''], k) \<in> set es) \<and>
   (\<exists>es k. InfluxDBConfig_init strict
             [(''host'', PStr ''localhost''), (''database'', PNone)] = Invalid es \<and>
           ([Key ''database''], k) \<in> set es)"
proof -
  have w1: "InfluxDBConfig_init strict
     [(''host'', PStr ''localhost''), (''port'', PInt 70000), (''database'', PStr [])]
     = Valid \<lparr>host = ''localhost'', port = 70000, database = [], retention_policy = None\<rparr>"
    by (rule influx_config_checks_presence_and_type
        [where vh = "PStr ''localhost''",
         THEN conjunct1, THEN mp])
      (simp add: str_validator_def int_validator_def)
  have w2: "InfluxDBConfig_init
     (strict\<lparr>to_int := (\<lambda>v. if v = PStr ''8086'' then Some 8086 else None)\<rparr>)
     [(''host'', PStr ''localhost''), (''port'', PStr ''8086''), (''database'', PStr ''energy'')]
     = Valid \<lparr>host = ''localhost'', port = 8086, database = ''energy'',
              retention_policy = None\<rparr>"
    by (rule influx_config_checks_presence_and_type
        [where vh = "PStr ''localhost''",
         THEN conjunct1, THEN mp])
      (simp add: str_validator_def int_validator_def)
  have w3: "InfluxDBConfig_init strict [(''host'', PStr ''localhost'')]
     = Valid \<lparr>host = ''localhost'', port = 8086, database = ''energy'',
              retention_policy = None\<rparr>"
    by (rule influx_config_checks_presence_and_type
        [where vh = "PStr ''localhost''",
         THEN conjunct1, THEN mp])
      (simp add: str_validator_def)
  have w4: "InfluxDBConfig_init strict
     [(''host'', PStr ''localhost''), (''retention_policy'', PStr ''weekly'')]
     = Valid \<lparr>host = ''localhost'', port = 8086, database = ''energy'',
              retention_policy = Some ''weekly''\<rparr>"
    by (rule influx_config_checks_presence_and_type
        [where vh = "PStr ''localhost''",
         THEN conjunct1, THEN mp])
      (simp add: str_validator_def)
  have "\<exists>es. InfluxDBConfig_init strict [(''port'', PStr ''http'')]
               = Invalid (([Key ''host''], Missing) # es)"
    by (rule influx_config_checks_presence_and_type
        [THEN conjunct2, THEN conjunct2, THEN conjunct2, THEN conjunct1,
         THEN mp]) simp
  then obtain es where es: "InfluxDBConfig_init strict [(''port'', PStr ''http'')]
               = Invalid (([Key ''host''], Missing) # es)"
    by blast
  then have "([Key ''host''], Missing) # es \<noteq> [] \<and>
      (\<forall>e \<in> set (([Key ''host''], Missing) # es).
         \<exists>f \<in> set [''host'', ''retention_policy'', ''port'', ''database''].
           \<exists>rest. fst e = Key f # rest)"
    by (rule influx_config_checks_presence_and_type
        [THEN conjunct2, THEN conjunct2, THEN conjunct2, THEN conjunct2,
         THEN conjunct1, THEN mp])
  with es have w5: "InfluxDBConfig_init strict [(''port'', PStr ''http'')]
     = Invalid [([Key ''host''], Missing), ([Key ''port''], IntegerError)]"
    by (simp add: InfluxDBConfig_init_def required_field_def default_field_def
        optional_field_def int_validator_def strict_def at_loc_def both_def map_valid_def)
  have w6: "\<exists>es k. InfluxDBConfig_init strict [(''host'', PInt 123)] = Invalid es \<and>
           ([Key ''host''], k) \<in> set es"
    by (rule influx_config_checks_presence_and_type
        [where v = "PInt 123",
         THEN conjunct2, THEN conjunct2, THEN conjunct2, THEN conjunct2,
         THEN conjunct2, THEN conjunct1, THEN mp])
      (simp add: str_validator_def strict_def)
  have w7: "\<exists>es k. InfluxDBConfig_init strict
             [(''host'', PStr ''localhost''), (''retention_policy'', PInt 7)] = Invalid es \<and>
           ([Key ''retention_policy''], k) \<in> set es"
    by (rule influx_config_checks_presence_and_type
        [where v = "PInt 7",
         THEN conjunct2, THEN conjunct2, THEN conjunct2, THEN conjunct2,
         THEN conjunct2, THEN conjunct2, THEN conjunct1, THEN mp])
      (simp add: str_validator_def strict_def)
  have w8: "\<exists>es k. InfluxDBConfig_init strict
             [(''host'', PStr ''localhost''), (''port'', PStr ''http'')] = Invalid es \<and>
           ([Key ''port''], k) \<in> set es"
    by (rule influx_config_checks_presence_and_type
        [where v = "PStr ''http''",
         THEN conjunct2, THEN conjunct2, THEN conjunct2, THEN conjunct2,
         THEN conjunct2, THEN conjunct2, THEN conjunct2, THEN conjunct1,
         THEN mp])
      (simp add: int_validator_def strict_def)
  have w9: "\<exists>es k. InfluxDBConfig_init strict
             [(''host'', PStr ''localhost''), (''database'', PNone)] = Invalid es \<and>
           ([Key ''database''], k) \<in> set es"
    by (rule influx_config_checks_presence_and_type
        [where v = PNone,
         THEN conjunct2, THEN conjunct2, THEN conjunct2, THEN conjunct2,
         THEN conjunct2, THEN conjunct2, THEN conjunct2, THEN conjunct2,
         THEN conjunct1, THEN mp])
      simp
  from w1 w2 w3 w4 w5 w6 w7 w8 w9 show ?thesis
    by blast
qed

text \<open>
  The claim C6 as stated fails: the port 70000, which is no TCP port, and the empty
  database name are accepted.
\<close>

theorem port_and_database_are_not_checked:
  "InfluxDBConfig_init strict
     [(''host'', PStr ''localhost''), (''port'', PInt 70000), (''database'', PStr [])]
   = Valid \<lparr>host = ''localhost'', port = 70000, database = [], retention_policy = None\<rparr>"
  by (simp add: InfluxDBConfig_init_def required_field_def default_field_def optional_field_def
      str_validator_def int_validator_def at_loc_def both_def map_valid_def)

text \<open>
  C7, as the code has it. The model \<^verbatim>\<open>AreaPrices\<close> reads the mapping of areas from the
  key \<^verbatim>\<open>areas\<close> of the response, and a value counts as a mapping when it is one or
  when pydantic converts it to one. Malformed is a response that holds no mapping
  under that key (the area codes at the top level are such a response), or one in
  which some entry in the list of values of some area is no mapping or lacks a start
  that the datetime validator accepts or a value that the float validator accepts.
  For a malformed response \<open>collect_data\<close> raises right after the fetch, so no point
  is produced, nothing is logged as a dry run and nothing is written. What it raises
  is the validation error of the model, with one exception: when the value of some
  hourly entry is an integer beyond the range of a float, the conversion of that
  value raises \<^verbatim>\<open>OverflowError\<close>, which is no validation error. A response in which
  the value under \<^verbatim>\<open>areas\<close> is converted to the empty mapping, as \<^verbatim>\<open>dict\<close> does with the
  empty list, is accepted as a response without areas. Fields that the models do not
  name do not matter: the result for an hourly entry depends on \<^verbatim>\<open>start\<close> and
  \<^verbatim>\<open>value\<close> only, the result for an area on \<^verbatim>\<open>values\<close> only.
\<close>

theorem malformed_response_is_rejected:
  "(provider w (currency nc) 15 (NordpoolConfig.areas nc) = Inr raw \<and>
    (area_map L raw = None \<or>
     (\<exists>h \<in> set (hourly_entries L raw).
        lacks_field L ''start'' (datetime_validator L) h \<or>
        lacks_field L ''value'' (float_validator L) h)) \<longrightarrow>
      ((\<exists>es. AreaPrices_parse_obj L raw = Invalid es \<and>
             collect_data L w nc cl ic dry
               = (Inl (ValidationError es),
                  [SessionCreated, Fetch (currency nc) 15 (NordpoolConfig.areas nc)])) \<or>
       (AreaPrices_parse_obj L raw = Overflow \<and>
        (\<exists>h \<in> set (hourly_entries L raw). too_large L h) \<and>
        collect_data L w nc cl ic dry
          = (Inl OverflowError,
             [SessionCreated, Fetch (currency nc) 15 (NordpoolConfig.areas nc)]))) \<and>
      dry_run_batches (snd (collect_data L w nc cl ic dry)) = [] \<and>
      written_batches (snd (collect_data L w nc cl ic dry)) = []) \<and>
   (as_dict L raw = Some kvs \<and> map_of kvs ''areas'' = Some a \<and> a \<noteq> PNone \<and>
    as_dict L a = Some [] \<longrightarrow>
      AreaPrices_parse_obj L raw = Valid \<lparr>areas = []\<rparr>) \<and>
   (map_of hk' ''start'' = map_of hk ''start'' \<and> map_of hk' ''value'' = map_of hk ''value'' \<longrightarrow>
      HourlyPrice_init L hk' = HourlyPrice_init L hk) \<and>
   (map_of ak' ''values'' = map_of ak ''values'' \<longrightarrow> AreaValues_init L ak' = AreaValues_init L ak)"
proof -
  have "((\<exists>es. AreaPrices_parse_obj L raw = Invalid es \<and>
             collect_data L w nc cl ic dry
               = (Inl (ValidationError es),
                  [SessionCreated, Fetch (currency nc) 15 (NordpoolConfig.areas nc)])) \<or>
       (AreaPrices_parse_obj L raw = Overflow \<and>
        (\<exists>h \<in> set (hourly_entries L raw). too_large L h) \<and>
        collect_data L w nc cl ic dry
          = (Inl OverflowError,
             [SessionCreated, Fetch (currency nc) 15 (NordpoolConfig.areas nc)]))) \<and>
      dry_run_batches (snd (collect_data L w nc cl ic dry)) = [] \<and>
      written_batches (snd (collect_data L w nc cl ic dry)) = []"
    if p: "provider w (currency nc) 15 (NordpoolConfig.areas nc) = Inr raw"
      and m: "area_map L raw = None \<or>
         (\<exists>h \<in> set (hourly_entries L raw).
            lacks_field L ''start'' (datetime_validator L) h \<or>
            lacks_field L ''value'' (float_validator L) h)"
  proof -
    from m have rejected: "\<not> is_Valid (AreaPrices_parse_obj L raw)"
      by (rule malformed_rejected)
    show ?thesis
    proof (cases "AreaPrices_parse_obj L raw")
      case (Valid ap)
      with rejected show ?thesis by simp
    next
      case (Invalid es)
      with p show ?thesis
        by (simp add: collect_data_def dry_run_batches_def written_batches_def)
    next
      case Overflow
      then have "\<exists>h \<in> set (hourly_entries L raw). too_large L h"
        by (rule parse_obj_Overflow)
      with p Overflow show ?thesis
        by (simp add: collect_data_def dry_run_batches_def written_batches_def)
    qed
  qed
  moreover have "AreaPrices_parse_obj L raw = Valid \<lparr>areas = []\<rparr>"
    if "as_dict L raw = Some kvs" "map_of kvs ''areas'' = Some a" "a \<noteq> PNone"
      "as_dict L a = Some []"
    using that
    by (simp add: AreaPrices_parse_obj_def AreaPrices_init_def required_field_def
        dict_validator_def at_loc_def map_valid_def)
  moreover have "HourlyPrice_init L hk' = HourlyPrice_init L hk"
    if "map_of hk' ''start'' = map_of hk ''start''" "map_of hk' ''value'' = map_of hk ''value''"
    using that by (simp add: HourlyPrice_init_def required_field_def)
  moreover have "AreaValues_init L ak' = AreaValues_init L ak"
    if "map_of ak' ''values'' = map_of ak ''values''"
    using that by (simp add: AreaValues_init_def required_field_def)
  ultimately show ?thesis by blast
qed

theorem malformed_response_is_rejected_witness:
  "collect_data strict (answering area_keyed_response) example_query example_client
     example_target False
     = (Inl (ValidationError [([Key ''areas''], Missing)]),
        [SessionCreated, Fetch ''EUR'' 15 [''SE1'']]) \<and>
   collect_data strict (answering (PStr ''Service Unavailable'')) example_query example_client
     example_target False
     = (Inl (ValidationError [([Key ''__root__''], DictError)]),
        [SessionCreated, Fetch ''EUR'' 15 [''SE1'']]) \<and>
   (\<exists>es. AreaPrices_parse_obj strict missing_start_response = Invalid es \<and>
         written_batches
           (snd (collect_data strict (answering missing_start_response) example_query
                   example_client example_target False)) = []) \<and>
   (\<exists>es. AreaPrices_parse_obj strict non_numeric_value_response = Invalid es \<and>
         dry_run_batches
           (snd (collect_data strict (answering non_numeric_value_response) example_query
                   example_client example_target True)) = []) \<and>
   collect_data strict (answering huge_value_response) example_query example_client
     example_target False
     = (Inl OverflowError, [SessionCreated, Fetch ''EUR'' 15 [''SE1'']]) \<and>
   AreaPrices_parse_obj
     (strict\<lparr>to_dict := (\<lambda>v. if v = PList [] then Some [] else None)\<rparr>)
     (PDict [(''areas'', PList [])])
     = Valid \<lparr>areas = []\<rparr> \<and>
   HourlyPrice_init strict
     [(''start'', PStr ''2024-01-01T00:00:00Z''), (''end'', PStr ''2024-01-01T00:15:00Z''),
      (''value'', PFloat (Finite 10))]
     = Valid \<lparr>start = example_start, value = Finite 10\<rparr> \<and>
   AreaValues_init strict [(''Min'', PFloat (Finite 1)), (''values'', PList [])]
     = Valid \<lparr>values = []\<rparr>"
proof -
  note rejected = malformed_response_is_rejected [THEN conjunct1, THEN mp]
  note entry_extras = malformed_response_is_rejected
    [THEN conjunct2, THEN conjunct2, THEN conjunct1, THEN mp]
  note area_extras = malformed_response_is_rejected
    [THEN conjunct2, THEN conjunct2, THEN conjunct2, THEN mp]
  have p: "provider (answering r) (currency example_query) 15 (NordpoolConfig.areas example_query)
             = Inr r" for r
    by (simp add: answering_def)
  have q: "currency example_query = ''EUR''" "NordpoolConfig.areas example_query = [''SE1'']"
    by (simp_all add: example_query_def)
  have a: "area_map strict area_keyed_response = None"
    by (simp add: area_map_def as_dict_def area_keyed_response_def strict_def)
  have a': "area_map strict (PStr ''Service Unavailable'') = None"
    by (simp add: area_map_def as_dict_def strict_def)
  have a'': "AreaPrices_parse_obj strict (PStr ''Service Unavailable'')
               = Invalid [([Key ''__root__''], DictError)]"
    by (simp add: AreaPrices_parse_obj_def as_dict_def strict_def)
  have b: "hourly_entries strict missing_start_response = [PDict [(''value'', PFloat (Finite 10))]]"
    by (simp add: hourly_entries_def area_map_def area_entries_def as_dict_def
        missing_start_response_def)
  have b': "lacks_field strict ''start'' (datetime_validator strict)
              (PDict [(''value'', PFloat (Finite 10))])"
    by (simp add: lacks_field_def as_dict_def)
  have b'': "\<not> too_large strict (PDict [(''value'', PFloat (Finite 10))])"
    by (simp add: too_large_def as_dict_def)
  have c: "hourly_entries strict non_numeric_value_response
             = [PDict [(''start'', PStr ''2024-01-01T00:00:00Z''), (''value'', PStr ''abc'')]]"
    by (simp add: hourly_entries_def area_map_def area_entries_def as_dict_def
        non_numeric_value_response_def)
  have c': "lacks_field strict ''value'' (float_validator strict)
              (PDict [(''start'', PStr ''2024-01-01T00:00:00Z''), (''value'', PStr ''abc'')])"
    by (simp add: lacks_field_def as_dict_def float_validator_def strict_def)
  have c'': "\<not> too_large strict
               (PDict [(''start'', PStr ''2024-01-01T00:00:00Z''), (''value'', PStr ''abc'')])"
    by (simp add: too_large_def as_dict_def)
  have d: "hourly_entries strict huge_value_response = [PDict [(''value'', PInt huge_int)]]"
    by (simp add: hourly_entries_def area_map_def area_entries_def as_dict_def
        huge_value_response_def)
  have d': "lacks_field strict ''start'' (datetime_validator strict)
              (PDict [(''value'', PInt huge_int)])"
    by (simp add: lacks_field_def as_dict_def)
  have "((\<exists>es. AreaPrices_parse_obj strict area_keyed_response = Invalid es \<and>
             collect_data strict (answering area_keyed_response) example_query example_client
               example_target False
               = (Inl (ValidationError es),
                  [SessionCreated,
                   Fetch (currency example_query) 15 (NordpoolConfig.areas example_query)])) \<or>
         (AreaPrices_parse_obj strict area_keyed_response = Overflow \<and>
          (\<exists>h \<in> set (hourly_entries strict area_keyed_response). too_large strict h) \<and>
          collect_data strict (answering area_keyed_response) example_query example_client
            example_target False
            = (Inl OverflowError,
               [SessionCreated,
                Fetch (currency example_query) 15 (NordpoolConfig.areas example_query)]))) \<and>
        dry_run_batches
          (snd (collect_data strict (answering area_keyed_response) example_query
                  example_client example_target False)) = [] \<and>
        written_batches
          (snd (collect_data strict (answering area_keyed_response) example_query
                  example_client example_target False)) = []"
    by (rule rejected) (simp add: p a)
  then have w1: "collect_data strict (answering area_keyed_response) example_query example_client
       example_target False
       = (Inl (ValidationError [([Key ''areas''], Missing)]),
          [SessionCreated, Fetch ''EUR'' 15 [''SE1'']])"
    by (simp add: area_keyed_response_rejected q)
  have "((\<exists>es. AreaPrices_parse_obj strict (PStr ''Service Unavailable'') = Invalid es \<and>
             collect_data strict (answering (PStr ''Service Unavailable'')) example_query
               example_client example_target False
               = (Inl (ValidationError es),
                  [SessionCreated,
                   Fetch (currency example_query) 15 (NordpoolConfig.areas example_query)])) \<or>
         (AreaPrices_parse_obj strict (PStr ''Service Unavailable'') = Overflow \<and>
          (\<exists>h \<in> set (hourly_entries strict (PStr ''Service Unavailable'')). too_large strict h) \<and>
          collect_data strict (answering (PStr ''Service Unavailable'')) example_query
            example_client example_target False
            = (Inl OverflowError,
               [SessionCreated,
                Fetch (currency example_query) 15 (NordpoolConfig.areas example_query)]))) \<and>
        dry_run_batches
          (snd (collect_data strict (answering (PStr ''Service Unavailable'')) example_query
                  example_client example_target False)) = [] \<and>
        written_batches
          (snd (collect_data strict (answering (PStr ''Service Unavailable'')) example_query
                  example_client example_target False)) = []"
    by (rule rejected) (simp add: p a')
  then have w2: "collect_data strict (answering (PStr ''Service Unavailable'')) example_query
       example_client example_target False
       = (Inl (ValidationError [([Key ''__root__''], DictError)]),
          [SessionCreated, Fetch ''EUR'' 15 [''SE1'']])"
    by (simp add: a'' q)
  have "((\<exists>es. AreaPrices_parse_obj strict missing_start_response = Invalid es \<and>
             collect_data strict (answering missing_start_response) example_query example_client
               example_target False
               = (Inl (ValidationError es),
                  [SessionCreated,
                   Fetch (currency example_query) 15 (NordpoolConfig.areas example_query)])) \<or>
         (AreaPrices_parse_obj strict missing_start_response = Overflow \<and>
          (\<exists>h \<in> set (hourly_entries strict missing_start_response). too_large strict h) \<and>
          collect_data strict (answering missing_start_response) example_query example_client
            example_target False
            = (Inl OverflowError,
               [SessionCreated,
                Fetch (currency example_query) 15 (NordpoolConfig.areas example_query)]))) \<and>
        dry_run_batches
          (snd (collect_data strict (answering missing_start_response) example_query
                  example_client example_target False)) = [] \<and>
        written_batches
          (snd (collect_data strict (answering missing_start_response) example_query
                  example_client example_target False)) = []"
    by (rule rejected) (simp add: p b b')
  then have w3: "\<exists>es. AreaPrices_parse_obj strict missing_start_response = Invalid es \<and>
         written_batches
           (snd (collect_data strict (answering missing_start_response) example_query
                   example_client example_target False)) = []"
    using b b'' by auto
  have "((\<exists>es. AreaPrices_parse_obj strict non_numeric_value_response = Invalid es \<and>
             collect_data strict (answering non_numeric_value_response) example_query
               example_client example_target True
               = (Inl (ValidationError es),
                  [SessionCreated,
                   Fetch (currency example_query) 15 (NordpoolConfig.areas example_query)])) \<or>
         (AreaPrices_parse_obj strict non_numeric_value_response = Overflow \<and>
          (\<exists>h \<in> set (hourly_entries strict non_numeric_value_response). too_large strict h) \<and>
          collect_data strict (answering non_numeric_value_response) example_query
            example_client example_target True
            = (Inl OverflowError,
               [SessionCreated,
                Fetch (currency example_query) 15 (NordpoolConfig.areas example_query)]))) \<and>
        dry_run_batches
          (snd (collect_data strict (answering non_numeric_value_response) example_query
                  example_client example_target True)) = [] \<and>
        written_batches
          (snd (collect_data strict (answering non_numeric_value_response) example_query
                  example_client example_target True)) = []"
    by (rule rejected) (simp add: p c c')
  then have w4: "\<exists>es. AreaPrices_parse_obj strict non_numeric_value_response = Invalid es \<and>
         dry_run_batches
           (snd (collect_data strict (answering non_numeric_value_response) example_query
                   example_client example_target True)) = []"
    using c c'' by auto
  have "((\<exists>es. AreaPrices_parse_obj strict huge_value_response = Invalid es \<and>
             collect_data strict (answering huge_value_response) example_query example_client
               example_target False
               = (Inl (ValidationError es),
                  [SessionCreated,
                   Fetch (currency example_query) 15 (NordpoolConfig.areas example_query)])) \<or>
         (AreaPrices_parse_obj strict huge_value_response = Overflow \<and>
          (\<exists>h \<in> set (hourly_entries strict huge_value_response). too_large strict h) \<and>
          collect_data strict (answering huge_value_response) example_query example_client
            example_target False
            = (Inl OverflowError,
               [SessionCreated,
                Fetch (currency example_query) 15 (NordpoolConfig.areas example_query)]))) \<and>
        dry_run_batches
          (snd (collect_data strict (answering huge_value_response) example_query
                  example_client example_target False)) = [] \<and>
        written_batches
          (snd (collect_data strict (answering huge_value_response) example_query
                  example_client example_target False)) = []"
    by (rule rejected) (simp add: p d d')
  then have w5: "collect_data strict (answering huge_value_response) example_query example_client
       example_target False
       = (Inl OverflowError, [SessionCreated, Fetch ''EUR'' 15 [''SE1'']])"
    by (simp add: huge_value_response_raises q)
  have w5': "AreaPrices_parse_obj
       (strict\<lparr>to_dict := (\<lambda>v. if v = PList [] then Some [] else None)\<rparr>)
       (PDict [(''areas'', PList [])])
     = Valid \<lparr>areas = []\<rparr>"
    by (rule malformed_response_is_rejected
        [where a = "PList []" and kvs = "[(''areas'', PList [])]",
         THEN conjunct2, THEN conjunct1, THEN mp])
      (simp add: as_dict_def)
  have "HourlyPrice_init strict
          [(''start'', PStr ''2024-01-01T00:00:00Z''), (''end'', PStr ''2024-01-01T00:15:00Z''),
           (''value'', PFloat (Finite 10))]
        = HourlyPrice_init strict
            [(''start'', PStr ''2024-01-01T00:00:00Z''), (''value'', PFloat (Finite 10))]"
    by (rule entry_extras) simp
  moreover have "HourlyPrice_init strict
                   [(''start'', PStr ''2024-01-01T00:00:00Z''), (''value'', PFloat (Finite 10))]
                 = Valid \<lparr>start = example_start, value = Finite 10\<rparr>"
    using example_entry_parsed [of strict]
    by (simp add: example_entry_def model_validator_def as_dict_def)
  ultimately have w6: "HourlyPrice_init strict
          [(''start'', PStr ''2024-01-01T00:00:00Z''), (''end'', PStr ''2024-01-01T00:15:00Z''),
           (''value'', PFloat (Finite 10))]
        = Valid \<lparr>start = example_start, value = Finite 10\<rparr>"
    by simp
  have "AreaValues_init strict [(''Min'', PFloat (Finite 1)), (''values'', PList [])]
          = AreaValues_init strict [(''values'', PList [])]"
    by (rule area_extras) simp
  moreover have "AreaValues_init strict [(''values'', PList [])] = Valid \<lparr>values = []\<rparr>"
    by (simp add: AreaValues_init_def required_field_def list_validator_def not_none_def
        at_loc_def map_valid_def)
  ultimately have w7: "AreaValues_init strict [(''Min'', PFloat (Finite 1)), (''values'', PList [])]
                         = Valid \<lparr>values = []\<rparr>"
    by simp
  from w1 w2 w3 w4 w5 w5' w6 w7 show ?thesis by blast
qed

text \<open>
  The claim C7 as stated fails in two ways. A response whose top level is not keyed
  by area codes but holds the areas under the one key \<^verbatim>\<open>areas\<close> is accepted, and its
  point is written. And a response in which an hourly entry has no start and the
  integer \<open>10 ^ 400\<close> as its value is malformed, but what is raised is
  \<^verbatim>\<open>OverflowError\<close> from the conversion of the value, not the validation error.
\<close>

theorem malformed_response_accepted_or_overflow:
  "collect_data strict (answering areas_response) example_query example_client example_target
     False
     = (Inr (),
        [SessionCreated, Fetch ''EUR'' 15 [''SE1''], DebugPrices example_prices,
         WritePoints example_client [example_point] None, SessionClosed]) \<and>
   hourly_entries strict huge_value_response = [PDict [(''value'', PInt huge_int)]] \<and>
   lacks_field strict ''start'' (datetime_validator strict) (PDict [(''value'', PInt huge_int)]) \<and>
   AreaPrices_parse_obj strict huge_value_response = Overflow \<and>
   collect_data strict (answering huge_value_response) example_query example_client
     example_target True
     = (Inl OverflowError, [SessionCreated, Fetch ''EUR'' 15 [''SE1'']])"
proof -
  have "hourly_entries strict huge_value_response = [PDict [(''value'', PInt huge_int)]]"
    by (simp add: hourly_entries_def area_map_def area_entries_def as_dict_def
        huge_value_response_def)
  moreover have "lacks_field strict ''start'' (datetime_validator strict)
                   (PDict [(''value'', PInt huge_int)])"
    by (simp add: lacks_field_def as_dict_def)
  moreover have "collect_data strict (answering huge_value_response) example_query
       example_client example_target True
       = (Inl OverflowError, [SessionCreated, Fetch ''EUR'' 15 [''SE1'']])"
    by (simp add: collect_data_def answering_def huge_value_response_raises example_query_def)
  moreover have "collect_data strict (answering areas_response) example_query example_client
       example_target False
       = (Inr (),
          [SessionCreated, Fetch ''EUR'' 15 [''SE1''], DebugPrices example_prices,
           WritePoints example_client [example_point] None, SessionClosed])"
    by (simp add: collect_data_areas_response example_query_def example_target_def)
  ultimately show ?thesis
    by (simp add: huge_value_response_raises)
qed

text \<open>
  C8 does not hold of the code. The session is created before the fetch and closed by
  the last statement of \<open>collect_data\<close>, with nothing that would close it when an
  earlier statement raises. When the provider cannot be reached, when the response is
  rejected and when the database refuses the batch, \<open>collect_data\<close> ends with the
  session still open; it is closed when \<open>collect_data\<close> returns normally.
\<close>

theorem session_left_open_on_failure:
  "collect_data strict unreachable example_query example_client example_target False
     = (Inl (ProviderError ''timeout''), [SessionCreated, Fetch ''EUR'' 15 [''SE1'']]) \<and>
   session_open
     (snd (collect_data strict unreachable example_query example_client example_target False)) \<and>
   session_open
     (snd (collect_data strict (answering area_keyed_response) example_query example_client
             example_target False)) \<and>
   session_open
     (snd (collect_data strict (refusing areas_response) example_query example_client
             example_target False)) \<and>
   \<not> session_open
     (snd (collect_data strict (answering areas_response) example_query example_client
             example_target False))"
  by (simp add: collect_data_def unreachable_def answering_def refusing_def
      area_keyed_response_rejected areas_response_parsed session_open_def example_query_def)

text \<open>
  C9. When the run is not a dry run and the write to the database fails, the error
  leaves \<open>collect_data\<close>, and \<open>run\<close>, as it is: the write was tried once and the
  session is not even closed. Nowhere in the pipeline is anything tried again: every
  run of \<open>collect_data\<close> fetches once and writes at most once.
\<close>

theorem write_failure_propagates:
  assumes "provider w (currency nc) 15 (NordpoolConfig.areas nc) = Inr data"
    and "AreaPrices_parse_obj L data = Valid ap"
    and "sink w cl (json_body ap) (retention_policy ic) = Some e"
  shows "collect_data L w nc cl ic False
           = (Inl (SinkError e),
              [SessionCreated, Fetch (currency nc) 15 (NordpoolConfig.areas nc), DebugPrices ap,
               WritePoints cl (json_body ap) (retention_policy ic)]) \<and>
         (CheckerConfig_init L kvs = Valid \<lparr>influxdb = ic, nordpool = nc\<rparr> \<and>
          cl = InfluxDBClient (host ic) (port ic) (database ic) \<longrightarrow>
            fst (run L w (PDict kvs) False) = Inl (SinkError e)) \<and>
         length (written_batches (snd (collect_data L w' nc' cl' ic' dry))) \<le> 1 \<and>
         fetches (snd (collect_data L w' nc' cl' ic' dry)) = 1"
proof -
  have first: "collect_data L w nc cl ic False
           = (Inl (SinkError e),
              [SessionCreated, Fetch (currency nc) 15 (NordpoolConfig.areas nc), DebugPrices ap,
               WritePoints cl (json_body ap) (retention_policy ic)])"
    using assms by (simp add: collect_data_def)
  have "fst (run L w (PDict kvs) False) = Inl (SinkError e)"
    if "CheckerConfig_init L kvs = Valid \<lparr>influxdb = ic, nordpool = nc\<rparr>"
      "cl = InfluxDBClient (host ic) (port ic) (database ic)"
    using that first by (simp add: run_def)
  moreover have "length (written_batches (snd (collect_data L w' nc' cl' ic' dry))) \<le> 1"
    by (simp add: collect_data_def written_batches_def Let_def
        split: sum.splits option.splits outcome.splits)
  moreover have "fetches (snd (collect_data L w' nc' cl' ic' dry)) = 1"
    by (simp add: collect_data_def fetches_def Let_def
        split: sum.splits option.splits outcome.splits)
  ultimately show ?thesis using first by blast
qed

theorem write_failure_propagates_witness:
  "collect_data strict (refusing areas_response) example_query example_client example_target False
     = (Inl (SinkError ''write failed''),
        [SessionCreated, Fetch ''EUR'' 15 [''SE1''], DebugPrices example_prices,
         WritePoints example_client [example_point] None]) \<and>
   fst (run strict (refusing areas_response) example_config False)
     = Inl (SinkError ''write failed'')"
proof -
  have cfg: "CheckerConfig_init strict
          [(''influxdb'', PDict [(''host'', PStr ''localhost'')]),
           (''nordpool'', PDict [(''areas'', PList [PStr ''SE1'']), (''currency'', PStr ''EUR'')])]
        = Valid \<lparr>influxdb = example_target, nordpool = example_query\<rparr>"
    by (rule example_config_checked)
  have cl: "example_client
        = InfluxDBClient (host example_target) (port example_target) (database example_target)"
    by (simp add: example_client_def example_target_def)
  have "provider (refusing areas_response) (currency example_query) 15
          (NordpoolConfig.areas example_query) = Inr areas_response"
    by (simp add: refusing_def)
  moreover have "AreaPrices_parse_obj strict areas_response = Valid example_prices"
    by (rule areas_response_parsed)
  moreover have "sink (refusing areas_response) example_client (json_body example_prices)
          (retention_policy example_target) = Some ''write failed''"
    by (simp add: refusing_def)
  ultimately show ?thesis
    using write_failure_propagates
      [of "refusing areas_response" example_query areas_response strict example_prices
        example_client example_target "''write failed''"
        "[(''influxdb'', PDict [(''host'', PStr ''localhost'')]),
           (''nordpool'', PDict [(''areas'', PList [PStr ''SE1'']), (''currency'', PStr ''EUR'')])]"]
      cfg cl
    by (simp add: example_body example_query_def example_target_def example_config_def)
qed

text \<open>
  C10. When the mapping of areas in the response is empty, or every area has an empty
  list of values, parsing succeeds and the record builder gives no point. A dry run
  then logs the empty batch and returns; a run that is not a dry run calls the write
  with the empty batch, and returns normally when the database accepts it.
\<close>

theorem empty_response_gives_empty_batch:
  assumes "provider w (currency nc) 15 (NordpoolConfig.areas nc) = Inr (PDict kvs)"
    and "map_of kvs ''areas'' = Some (PDict am)"
    and "\<forall>kv \<in> set am. \<exists>av. snd kv = PDict av \<and> map_of av ''values'' = Some (PList [])"
  shows "\<exists>ap. AreaPrices_parse_obj L (PDict kvs) = Valid ap \<and> json_body ap = [] \<and>
           collect_data L w nc cl ic True
             = (Inr (),
                [SessionCreated, Fetch (currency nc) 15 (NordpoolConfig.areas nc), DebugPrices ap,
                 DebugDryRun [], SessionClosed]) \<and>
           written_batches (snd (collect_data L w nc cl ic False)) = [[]] \<and>
           (sink w cl [] (retention_policy ic) = None \<longrightarrow>
              collect_data L w nc cl ic False
                = (Inr (),
                   [SessionCreated, Fetch (currency nc) 15 (NordpoolConfig.areas nc),
                    DebugPrices ap, WritePoints cl [] (retention_policy ic), SessionClosed]))"
proof -
  have item: "\<forall>kv \<in> set am.
               not_none (model_validator L (AreaValues_init L)) (snd kv) = Valid \<lparr>values = []\<rparr>"
    using assms(3)
    by (auto simp: model_validator_def as_dict_def AreaValues_init_def required_field_def
        list_validator_def not_none_def at_loc_def map_valid_def)
  have "as_dict L (PDict am) = Some am"
    by (simp add: as_dict_def)
  from dict_validator_Valid [OF this item]
  obtain res where res: "dict_validator L (model_validator L (AreaValues_init L)) (PDict am) = Valid res"
    and empty: "\<forall>x \<in> set res. snd x = \<lparr>values = []\<rparr>"
    by blast
  have parsed: "AreaPrices_parse_obj L (PDict kvs) = Valid \<lparr>areas = res\<rparr>"
    using assms(2) res
    by (simp add: AreaPrices_parse_obj_def as_dict_def AreaPrices_init_def required_field_def
        at_loc_def map_valid_def)
  have body: "json_body \<lparr>areas = res\<rparr> = []"
    using empty by (intro json_body_no_values) simp
  show ?thesis
    using assms(1) parsed body
    by (simp add: collect_data_def written_batches_def Let_def split: option.splits)
qed

theorem empty_response_gives_empty_batch_witness:
  "AreaPrices_parse_obj strict empty_values_response = Valid \<lparr>areas = [(''SE1'', \<lparr>values = []\<rparr>)]\<rparr> \<and>
   (\<exists>ap. collect_data strict (answering empty_values_response) example_query example_client
            example_target False
          = (Inr (),
             [SessionCreated, Fetch ''EUR'' 15 [''SE1''], DebugPrices ap,
              WritePoints example_client [] None, SessionClosed]))"
proof -
  have p: "AreaPrices_parse_obj strict empty_values_response
             = Valid \<lparr>areas = [(''SE1'', \<lparr>values = []\<rparr>)]\<rparr>"
    by (simp add: empty_values_response_def AreaPrices_parse_obj_def AreaPrices_init_def
        AreaValues_init_def as_dict_def required_field_def dict_validator_def
        model_validator_def list_validator_def not_none_def at_loc_def map_valid_def)
  have "provider (answering empty_values_response) (currency example_query) 15
          (NordpoolConfig.areas example_query)
        = Inr (PDict [(''areas'', PDict [(''SE1'', PDict [(''values'', PList [])])])])"
    by (simp add: answering_def empty_values_response_def)
  moreover have "map_of [(''areas'', PDict [(''SE1'', PDict [(''values'', PList [])])])] ''areas''
        = Some (PDict [(''SE1'', PDict [(''values'', PList [])])])"
    by simp
  moreover have "\<forall>kv \<in> set [(''SE1'', PDict [(''values'', PList [])])].
        \<exists>av. snd kv = PDict av \<and> map_of av ''values'' = Some (PList [])"
    by simp
  ultimately have "\<exists>ap.
      AreaPrices_parse_obj strict
        (PDict [(''areas'', PDict [(''SE1'', PDict [(''values'', PList [])])])]) = Valid ap \<and>
      json_body ap = [] \<and>
      collect_data strict (answering empty_values_response) example_query example_client
        example_target True
        = (Inr (),
           [SessionCreated,
            Fetch (currency example_query) 15 (NordpoolConfig.areas example_query),
            DebugPrices ap, DebugDryRun [], SessionClosed]) \<and>
      written_batches
        (snd (collect_data strict (answering empty_values_response) example_query
                example_client example_target False)) = [[]] \<and>
      (sink (answering empty_values_response) example_client []
         (retention_policy example_target) = None \<longrightarrow>
         collect_data strict (answering empty_values_response) example_query example_client
           example_target False
           = (Inr (),
              [SessionCreated,
               Fetch (currency example_query) 15 (NordpoolConfig.areas example_query),
               DebugPrices ap, WritePoints example_client [] (retention_policy example_target),
               SessionClosed]))"
    by (rule empty_response_gives_empty_batch)
  then show ?thesis
    using p by (auto simp: answering_def example_query_def example_target_def)
qed

end
